theory Spec2Isabelle
  imports Main "HOL-Library.Sublist"
begin

section \<open>Python strings\<close>

text \<open>
  A Python \<open>str\<close> is modelled as a \<open>string\<close> whose characters are the code points
  below 256; the string methods used by \<open>app/video_merger.py\<close> are given their Python
  meaning on that range.
\<close>

definition is_space :: "char \<Rightarrow> bool" where
  \<comment> \<open>\<open>str.isspace\<close>: TAB, LF, VT, FF, CR, FS, GS, RS, US, space, NEL, NBSP\<close>
  "is_space c = ((of_char c :: nat) \<in> {9, 10, 11, 12, 13, 28, 29, 30, 31, 32, 133, 160})"

definition is_linebreak :: "char \<Rightarrow> bool" where
  \<comment> \<open>the line boundaries of \<open>str.splitlines\<close> other than CR: LF, VT, FF, FS, GS, RS, NEL\<close>
  "is_linebreak c = ((of_char c :: nat) \<in> {10, 11, 12, 28, 29, 30, 133})"

definition strip :: "string \<Rightarrow> string" where
  \<comment> \<open>\<open>str.strip()\<close>\<close>
  "strip s = rev (dropWhile is_space (rev (dropWhile is_space s)))"

fun splitlines_from :: "string \<Rightarrow> string \<Rightarrow> string list" where
  \<comment> \<open>first argument: the current line, reversed\<close>
  "splitlines_from cur [] = (if cur = [] then [] else [rev cur])"
| "splitlines_from cur (c # cs) =
     (if c = CHR 0x0D then
        (case cs of
           [] \<Rightarrow> [rev cur]
         | d # ds \<Rightarrow>
             if d = CHR 0x0A then rev cur # splitlines_from [] ds
             else rev cur # splitlines_from [] cs)
      else if is_linebreak c then rev cur # splitlines_from [] cs
      else splitlines_from (c # cur) cs)"

definition splitlines :: "string \<Rightarrow> string list" where
  \<comment> \<open>\<open>str.splitlines()\<close>\<close>
  "splitlines s = splitlines_from [] s"

definition lower_char :: "char \<Rightarrow> char" where
  "lower_char c =
     (let n = (of_char c :: nat)
      in if (65 \<le> n \<and> n \<le> 90) \<or> (192 \<le> n \<and> n \<le> 222 \<and> n \<noteq> 215)
         then char_of (n + 32) else c)"

definition lower :: "string \<Rightarrow> string" where
  \<comment> \<open>\<open>str.lower()\<close>\<close>
  "lower s = map lower_char s"

fun startswith :: "string \<Rightarrow> string \<Rightarrow> bool" where
  "startswith s [] = True"
| "startswith [] (p # ps) = False"
| "startswith (c # cs) (p # ps) = (c = p \<and> startswith cs ps)"

fun str_in :: "string \<Rightarrow> string \<Rightarrow> bool" where
  \<comment> \<open>\<open>needle in s\<close> on strings: \<open>needle\<close> occurs in \<open>s\<close> as a contiguous substring\<close>
  "str_in needle [] = (needle = [])"
| "str_in needle (c # cs) = (startswith (c # cs) needle \<or> str_in needle cs)"

definition is_digit :: "char \<Rightarrow> bool" where
  "is_digit c = (48 \<le> (of_char c :: nat) \<and> (of_char c :: nat) \<le> 57)"

definition digit_val :: "char \<Rightarrow> nat" where
  "digit_val c = of_char c - 48"

fun parse_digits :: "nat \<Rightarrow> string \<Rightarrow> nat option" where
  \<comment> \<open>the rest of a decimal literal after a digit: digits, single underscores between them\<close>
  "parse_digits acc [] = Some acc"
| "parse_digits acc (c # cs) =
     (if is_digit c then parse_digits (10 * acc + digit_val c) cs
      else if c = CHR ''_'' then
        (case cs of
           [] \<Rightarrow> None
         | d # ds \<Rightarrow> if is_digit d then parse_digits (10 * acc + digit_val d) ds else None)
      else None)"

definition parse_unsigned :: "string \<Rightarrow> nat option" where
  "parse_unsigned s =
     (case s of
        [] \<Rightarrow> None
      | c # cs \<Rightarrow> if is_digit c then parse_digits (digit_val c) cs else None)"

definition py_int :: "string \<Rightarrow> int option" where
  \<comment> \<open>\<open>int(s)\<close> in base 10; \<open>None\<close> is \<open>ValueError\<close>\<close>
  "py_int s =
     (case strip s of
        [] \<Rightarrow> None
      | c # cs \<Rightarrow>
          if c = CHR ''-'' then map_option (\<lambda>n. - int n) (parse_unsigned cs)
          else if c = CHR ''+'' then map_option int (parse_unsigned cs)
          else map_option int (parse_unsigned (c # cs)))"

function str_nat :: "nat \<Rightarrow> string" where
  "str_nat n =
     (if n < 10 then [char_of (48 + n)]
      else str_nat (n div 10) @ [char_of (48 + n mod 10)])"
  by pat_completeness auto
termination
  by (relation "measure id") auto

declare str_nat.simps [simp del]

definition str_int :: "int \<Rightarrow> string" where
  \<comment> \<open>\<open>str(i)\<close>, also the rendering of an integer inside an f-string\<close>
  "str_int i = (if i < 0 then CHR ''-'' # str_nat (nat (- i)) else str_nat (nat i))"

section \<open>Paths and the file system\<close>

type_synonym path = string

datatype node = File string | Dir

text \<open>
  The file system maps a canonical path to the node stored there. Every access
  first canonicalises the path it is given with \<open>resolve\<close> (the cwd, \<open>..\<close> and
  symbolic links belong to the environment).
\<close>

type_synonym fs = "path \<Rightarrow> node option"

definition ancestors_or_self :: "path \<Rightarrow> path list" where
  \<comment> \<open>the path itself and every directory on the way to it: for \<open>/a/b\<close> these are \<open>/\<close>, \<open>/a\<close>, \<open>/a/b\<close>\<close>
  "ancestors_or_self k =
     filter (\<lambda>q. q = k \<or> (q \<noteq> [] \<and> (q = ''/'' \<or> take 1 (drop (length q) k) = ''/'')))
       (prefixes k)"

definition inside :: "path \<Rightarrow> path \<Rightarrow> bool" where
  \<comment> \<open>\<open>k\<close> is the directory \<open>t\<close> or lies below it\<close>
  "inside t k = (t \<in> set (ancestors_or_self k))"

definition parent :: "path \<Rightarrow> path" where
  \<comment> \<open>\<open>PurePath.parent\<close>\<close>
  "parent p =
     (let q = rev (tl (dropWhile (\<lambda>c. c \<noteq> CHR ''/'') (rev p)))
      in if q \<noteq> [] then q else if take 1 p = ''/'' then ''/'' else ''.'')"

definition joinpath :: "path \<Rightarrow> string \<Rightarrow> path" where
  \<comment> \<open>\<open>Path(d) / name\<close> for a relative \<open>name\<close>\<close>
  "joinpath d name = (if d = ''/'' then d @ name else d @ ''/'' @ name)"

definition basename :: "path \<Rightarrow> string" where
  "basename p = rev (takeWhile (\<lambda>c. c \<noteq> CHR ''/'') (rev p))"

section \<open>Exceptions, subprocesses, the environment\<close>

datatype pyerror =
    FileNotFoundError string
  | RuntimeError string
  | CalledProcessError "string list" int
  | ValueError string
  | OSError string
  | DownloadError string

datatype completed =
    NotFound             \<comment> \<open>no such executable: \<open>FileNotFoundError\<close>\<close>
  | StartFailed string   \<comment> \<open>any other \<open>OSError\<close> of starting the process, as \<open>PermissionError\<close>\<close>
  | Exited int string    \<comment> \<open>return code and captured stdout\<close>

datatype ytdlp_result =
    DownloadRaised string
  | Downloaded string    \<comment> \<open>the extension that fills \<open>%(ext)s\<close> of the output template\<close>

datatype event =
    Subprocess "string list"
  | YtDlp string path
  | Copy2 path path
  | Replace path path
  | Mkdir path
  | Mkdtemp path
  | Rmtree path

text \<open>
  What the program cannot decide by itself is a field of the environment: home and path
  resolution, what an executable answers and which files it writes, whether the
  \<open>yt_dlp\<close> module can be imported and what a download does, and the name
  \<open>tempfile\<close> picks. An external tool creates or overwrites regular files only.

  \<open>Path.expanduser()\<close> raises \<open>RuntimeError\<close> for the paths the environment marks with
  \<open>unknown_home\<close> and returns \<open>expanduser env p\<close> otherwise; \<open>Path.exists()\<close> raises
  \<open>OSError\<close> for the names the environment marks with \<open>stat_refuses\<close>. Starting a process
  fails because the executable is missing (\<open>NotFound\<close>), fails with another \<open>OSError\<close>
  (\<open>StartFailed\<close>), or yields a return code and the captured output.

  The model takes the following for granted. \<open>Path.resolve()\<close> returns a path. Removing
  the temporary directory on leaving the \<open>with\<close> block succeeds. \<open>int()\<close> has no limit on
  the number of digits. The trace records every effect that was attempted, in order.
\<close>

record env =
  unknown_home :: "path \<Rightarrow> bool"
  expanduser :: "path \<Rightarrow> path"
  resolve :: "path \<Rightarrow> path"
  stat_refuses :: "path \<Rightarrow> bool"
  popen :: "string list \<Rightarrow> fs \<Rightarrow> completed \<times> (path \<times> string) list"
  ytdlp_importable :: bool
  ytdlp_extract :: "string \<Rightarrow> path \<Rightarrow> fs \<Rightarrow> ytdlp_result \<times> (path \<times> string) list"
  tempname :: "fs \<Rightarrow> path"

record world =
  files :: fs
  trace :: "event list"

type_synonym 'a run = "world \<Rightarrow> (pyerror + 'a) \<times> world"

definition succeed :: "'a \<Rightarrow> 'a run" where
  "succeed x w = (Inr x, w)"

definition throw :: "pyerror \<Rightarrow> 'a run" where
  "throw e w = (Inl e, w)"

definition and_then :: "'a run \<Rightarrow> ('a \<Rightarrow> 'b run) \<Rightarrow> 'b run" where
  \<comment> \<open>sequencing: an exception of the first part skips the rest\<close>
  "and_then m f w = (case m w of (Inl e, w') \<Rightarrow> (Inl e, w') | (Inr x, w') \<Rightarrow> f x w')"

definition reraise :: "'a run \<Rightarrow> (pyerror \<Rightarrow> pyerror) \<Rightarrow> 'a run" where
  \<comment> \<open>\<open>try: m except ... as exc: raise h(exc)\<close>\<close>
  "reraise m h w = (case m w of (Inl e, w') \<Rightarrow> (Inl (h e), w') | (Inr x, w') \<Rightarrow> (Inr x, w'))"

definition on_exit :: "'a run \<Rightarrow> unit run \<Rightarrow> 'a run" where
  \<comment> \<open>the exit of a context manager: runs on every way out of the body\<close>
  "on_exit m c w =
     (case m w of (r, w1) \<Rightarrow>
        (case c w1 of (Inl e, w2) \<Rightarrow> (Inl e, w2) | (Inr u, w2) \<Rightarrow> (r, w2)))"

definition log :: "event \<Rightarrow> world \<Rightarrow> world" where
  "log e w = w\<lparr>trace := trace w @ [e]\<rparr>"

definition expand_user :: "env \<Rightarrow> path \<Rightarrow> path run" where
  \<comment> \<open>\<open>Path.expanduser()\<close>: raises when the home directory of \<open>~user\<close> cannot be determined\<close>
  "expand_user env p =
     (if unknown_home env p then throw (RuntimeError ''Could not determine home directory.'')
      else succeed (expanduser env p))"

definition path_exists :: "env \<Rightarrow> path \<Rightarrow> bool run" where
  \<comment> \<open>\<open>Path.exists()\<close>: an \<open>OSError\<close> of \<open>stat\<close> other than ``no such file'', as for a name
      that is too long, is raised\<close>
  "path_exists env p w =
     (if stat_refuses env p then (Inl (OSError ''File name too long''), w)
      else (Inr (files w (resolve env p) \<noteq> None), w))"

fun write_files :: "env \<Rightarrow> (path \<times> string) list \<Rightarrow> fs \<Rightarrow> fs" where
  "write_files env [] f = f"
| "write_files env ((p, c) # ws) f =
     write_files env ws (if f (resolve env p) = Some Dir then f else f(resolve env p \<mapsto> File c))"

definition subprocess_run :: "env \<Rightarrow> string list \<Rightarrow> string run" where
  \<comment> \<open>\<open>subprocess.run(argv, check=True, ...)\<close>; the result is the captured stdout\<close>
  "subprocess_run env argv w =
     (case popen env argv (files w) of
        (NotFound, ws) \<Rightarrow> (Inl (FileNotFoundError (hd argv)), log (Subprocess argv) w)
      | (StartFailed msg, ws) \<Rightarrow> (Inl (OSError msg), log (Subprocess argv) w)
      | (Exited rc out, ws) \<Rightarrow>
          (if rc = 0 then Inr out else Inl (CalledProcessError argv rc),
           log (Subprocess argv) (w\<lparr>files := write_files env ws (files w)\<rparr>)))"

definition mkdir_parents :: "env \<Rightarrow> path \<Rightarrow> unit run" where
  \<comment> \<open>\<open>Path.mkdir(parents=True, exist_ok=True)\<close>\<close>
  "mkdir_parents env p w =
     (let chain = ancestors_or_self (resolve env p)
      in if list_ex (\<lambda>q. case files w q of Some (File c) \<Rightarrow> True | _ \<Rightarrow> False) chain
         then (Inl (OSError ''mkdir''), log (Mkdir p) w)
         else (Inr (),
               log (Mkdir p)
                 (w\<lparr>files := (\<lambda>k. if k \<in> set chain \<and> files w k = None then Some Dir
                                    else files w k)\<rparr>)))"

definition copy2 :: "env \<Rightarrow> path \<Rightarrow> path \<Rightarrow> unit run" where
  \<comment> \<open>\<open>shutil.copy2(src, dst)\<close>: into \<open>dst\<close> when it is a directory; the directory the
      copy goes to must exist\<close>
  "copy2 env src dst w =
     (case files w (resolve env src) of
        None \<Rightarrow> (Inl (FileNotFoundError src), log (Copy2 src dst) w)
      | Some Dir \<Rightarrow> (Inl (OSError ''IsADirectoryError''), log (Copy2 src dst) w)
      | Some (File c) \<Rightarrow>
          (let target = (if files w (resolve env dst) = Some Dir
                         then joinpath dst (basename src) else dst)
           in if files w (resolve env target) = Some Dir
              then (Inl (OSError ''IsADirectoryError''), log (Copy2 src dst) w)
              else if files w (resolve env (parent target)) \<noteq> Some Dir
              then (Inl (FileNotFoundError target), log (Copy2 src dst) w)
              else (Inr (),
                    log (Copy2 src dst)
                      (w\<lparr>files := (files w)(resolve env target \<mapsto> File c)\<rparr>))))"

definition replace :: "env \<Rightarrow> path \<Rightarrow> path \<Rightarrow> unit run" where
  \<comment> \<open>\<open>Path.replace(target)\<close> of a regular file; the target's directory must exist\<close>
  "replace env src dst w =
     (case files w (resolve env src) of
        None \<Rightarrow> (Inl (FileNotFoundError src), log (Replace src dst) w)
      | Some Dir \<Rightarrow> (Inl (OSError ''replace''), log (Replace src dst) w)
      | Some (File c) \<Rightarrow>
          (if files w (resolve env dst) = Some Dir
           then (Inl (OSError ''IsADirectoryError''), log (Replace src dst) w)
           else if files w (resolve env (parent dst)) \<noteq> Some Dir
           then (Inl (FileNotFoundError dst), log (Replace src dst) w)
           else (Inr (),
                 log (Replace src dst)
                   (w\<lparr>files := ((files w)(resolve env src := None))(resolve env dst \<mapsto> File c)\<rparr>))))"

definition mkdtemp :: "env \<Rightarrow> path run" where
  \<comment> \<open>entering \<open>tempfile.TemporaryDirectory()\<close>: a directory under a name not in use\<close>
  "mkdtemp env w =
     (let t = tempname env (files w)
      in if files w (resolve env t) \<noteq> None
         then (Inl (OSError ''FileExistsError''), log (Mkdtemp t) w)
         else (Inr t, log (Mkdtemp t) (w\<lparr>files := (files w)(resolve env t \<mapsto> Dir)\<rparr>)))"

definition rmtree :: "env \<Rightarrow> path \<Rightarrow> unit run" where
  \<comment> \<open>leaving \<open>tempfile.TemporaryDirectory()\<close>: the directory and all below it are removed\<close>
  "rmtree env t w =
     (Inr (),
      log (Rmtree t)
        (w\<lparr>files := (\<lambda>k. if inside (resolve env t) k then None else files w k)\<rparr>))"

definition with_temporary_directory :: "env \<Rightarrow> (path \<Rightarrow> 'a run) \<Rightarrow> 'a run" where
  \<comment> \<open>\<open>with tempfile.TemporaryDirectory() as tmpdir: body\<close>\<close>
  "with_temporary_directory env body =
     and_then (mkdtemp env) (\<lambda>tmpdir. on_exit (body tmpdir) (rmtree env tmpdir))"

section \<open>app/video\_merger.py\<close>

definition STREAMING_DOMAINS :: "string list" where
  "STREAMING_DOMAINS =
     [''youtube.com'', ''youtu.be'', ''x.com'', ''twitter.com'',
      ''tiktok.com'', ''vimeo.com'', ''bitchute.com'', ''rumble.com'']"

definition ensure_ffmpeg_available :: "env \<Rightarrow> unit run" where
  "ensure_ffmpeg_available env =
     reraise
       (and_then (subprocess_run env [''ffmpeg'', ''-version'']) (\<lambda>out. succeed ()))
       (\<lambda>exc. case exc of
          FileNotFoundError x \<Rightarrow>
            RuntimeError ''ffmpeg is required to merge videos; please install it.''
        | CalledProcessError a rc \<Rightarrow> RuntimeError ''Unable to run ffmpeg binary.''
        | _ \<Rightarrow> exc)"

definition has_audio_stream :: "env \<Rightarrow> path \<Rightarrow> bool run" where
  "has_audio_stream env video_path =
     and_then
       (reraise
          (subprocess_run env
             [''ffprobe'', ''-v'', ''error'', ''-select_streams'', ''a'',
              ''-show_entries'', ''stream=index'',
              ''-of'', ''default=noprint_wrappers=1:nokey=1'', video_path])
          (\<lambda>exc. case exc of
             FileNotFoundError x \<Rightarrow>
               RuntimeError ''ffprobe is required to inspect audio tracks.''
           | CalledProcessError a rc \<Rightarrow>
               RuntimeError (''ffprobe could not analyze '' @ video_path @ ''.'')
           | _ \<Rightarrow> exc))
       (\<lambda>stdout. succeed (strip stdout \<noteq> []))"

definition probe_lines :: "string \<Rightarrow> string list" where
  \<comment> \<open>\<open>[line.strip() for line in stdout.splitlines() if line.strip()]\<close>\<close>
  "probe_lines stdout = map strip (filter (\<lambda>line. strip line \<noteq> []) (splitlines stdout))"

definition probe_video_dimensions :: "env \<Rightarrow> path \<Rightarrow> (int \<times> int) run" where
  "probe_video_dimensions env video_path =
     and_then
       (reraise
          (subprocess_run env
             [''ffprobe'', ''-v'', ''error'', ''-select_streams'', ''v:0'',
              ''-show_entries'', ''stream=width,height'',
              ''-of'', ''default=noprint_wrappers=1:nokey=1'', video_path])
          (\<lambda>exc. case exc of
             FileNotFoundError x \<Rightarrow>
               RuntimeError ''ffprobe is required to inspect video streams.''
           | CalledProcessError a rc \<Rightarrow>
               RuntimeError (''ffprobe could not analyze '' @ video_path @ ''.'')
           | _ \<Rightarrow> exc))
       (\<lambda>stdout.
          (case probe_lines stdout of
             l0 # l1 # rest \<Rightarrow>
               (case py_int l0 of
                  None \<Rightarrow> throw (ValueError l0)
                | Some width \<Rightarrow>
                    (case py_int l1 of
                       None \<Rightarrow> throw (ValueError l1)
                     | Some height \<Rightarrow> succeed (width, height)))
           | _ \<Rightarrow> throw (RuntimeError (''Unable to determine dimensions for '' @ video_path))))"

definition scale_vf :: "int \<Rightarrow> int \<Rightarrow> string" where
  \<comment> \<open>the local \<open>vf\<close> of \<open>_scale_video_to_target\<close>\<close>
  "scale_vf width height =
     ''scale='' @ str_int width @ '':'' @ str_int height
       @ '':force_original_aspect_ratio=decrease,''
       @ ''pad='' @ str_int width @ '':'' @ str_int height @ '':(ow-iw)/2:(oh-ih)/2''"

definition scale_video_to_target :: "env \<Rightarrow> path \<Rightarrow> int \<times> int \<Rightarrow> path \<Rightarrow> unit run" where
  "scale_video_to_target env source target_size destination =
     (case target_size of (width, height) \<Rightarrow>
        and_then
          (subprocess_run env
             [''ffmpeg'', ''-y'', ''-i'', source, ''-vf'', scale_vf width height,
              ''-c:v'', ''libx264'', ''-preset'', ''fast'', ''-pix_fmt'', ''yuv420p'',
              ''-c:a'', ''copy'', destination])
          (\<lambda>out. succeed ()))"

definition concat_filter_complex :: "bool \<Rightarrow> string" where
  \<comment> \<open>the local \<open>filter_complex\<close> of \<open>_concat_with_reencoding\<close>\<close>
  "concat_filter_complex include_audio =
     (if include_audio then ''[0:v][0:a][1:v][1:a]concat=n=2:v=1:a=1[v][a]''
      else ''[0:v][1:v]concat=n=2:v=1:a=0[v]'')"

definition concat_args :: "path \<Rightarrow> path \<Rightarrow> path \<Rightarrow> bool \<Rightarrow> string list" where
  \<comment> \<open>the local \<open>args\<close> of \<open>_concat_with_reencoding\<close>, as passed to \<open>subprocess.run\<close>\<close>
  "concat_args local_path remote_path output_path include_audio =
     [''ffmpeg'', ''-y'', ''-i'', local_path, ''-i'', remote_path,
      ''-filter_complex'', concat_filter_complex include_audio,
      ''-map'', ''[v]'', ''-c:v'', ''libx264'', ''-preset'', ''fast'', ''-pix_fmt'', ''yuv420p'']
     @ (if include_audio
        then [''-map'', ''[a]'', ''-c:a'', ''aac'', ''-b:a'', ''192k'', ''-ar'', ''44100'']
        else [])
     @ [output_path]"

definition concat_with_reencoding :: "env \<Rightarrow> path \<Rightarrow> path \<Rightarrow> path \<Rightarrow> bool \<Rightarrow> unit run" where
  "concat_with_reencoding env local_path remote_path output_path include_audio =
     and_then
       (subprocess_run env (concat_args local_path remote_path output_path include_audio))
       (\<lambda>out. succeed ())"

definition is_streaming_url :: "string \<Rightarrow> bool" where
  "is_streaming_url remote_url =
     (let lowered = lower remote_url
      in list_ex (\<lambda>domain. str_in domain lowered) STREAMING_DOMAINS)"

definition download_with_ytdlp :: "env \<Rightarrow> string \<Rightarrow> path \<Rightarrow> unit run" where
  "download_with_ytdlp env remote_url destination =
     (if \<not> ytdlp_importable env
      then throw (RuntimeError ''yt-dlp is required for streaming URLs like X/YouTube'')
      else
        and_then (mkdir_parents env (parent destination)) (\<lambda>u.
        let template = joinpath (parent destination) ''remote.%(ext)s'' in
        and_then
          (\<lambda>w. case ytdlp_extract env remote_url template (files w) of
                  (DownloadRaised msg, ws) \<Rightarrow>
                    (Inl (DownloadError msg),
                     log (YtDlp remote_url template)
                       (w\<lparr>files := write_files env ws (files w)\<rparr>))
                | (Downloaded ext, ws) \<Rightarrow>
                    (Inr (joinpath (parent destination) (''remote.'' @ ext)),
                     log (YtDlp remote_url template)
                       (w\<lparr>files := write_files env ws (files w)\<rparr>)))
          (\<lambda>downloaded_path.
        and_then (path_exists env downloaded_path) (\<lambda>found.
        if \<not> found
        then throw (RuntimeError (''yt-dlp failed to download '' @ remote_url))
        else replace env downloaded_path destination))))"

definition download_remote_clip :: "env \<Rightarrow> string \<Rightarrow> path \<Rightarrow> unit run" where
  "download_remote_clip env remote_url destination =
     and_then
       (subprocess_run env [''ffmpeg'', ''-y'', ''-i'', remote_url, ''-c'', ''copy'', destination])
       (\<lambda>out. succeed ())"

definition prepare_remote_clip :: "env \<Rightarrow> string \<Rightarrow> path \<Rightarrow> unit run" where
  "prepare_remote_clip env remote_url destination =
     and_then (expand_user env remote_url) (\<lambda>candidate.
     and_then (path_exists env candidate) (\<lambda>found.
     if found then copy2 env candidate destination
     else if is_streaming_url remote_url then download_with_ytdlp env remote_url destination
     else download_remote_clip env remote_url destination))"

definition merge_in_tmpdir :: "env \<Rightarrow> path \<Rightarrow> string \<Rightarrow> path \<Rightarrow> path \<Rightarrow> unit run" where
  \<comment> \<open>the body of the \<open>with\<close> statement of \<open>merge_local_with_remote\<close>\<close>
  "merge_in_tmpdir env local_path remote_url output_path tmpdir =
     (let working_remote = joinpath tmpdir ''remote.mp4'' in
      and_then (prepare_remote_clip env remote_url working_remote) (\<lambda>u.
      and_then (probe_video_dimensions env local_path) (\<lambda>local_size.
      and_then (probe_video_dimensions env working_remote) (\<lambda>remote_size.
      and_then
        (if local_size \<noteq> remote_size
         then and_then
                (scale_video_to_target env working_remote local_size
                   (joinpath tmpdir ''remote_scaled.mp4''))
                (\<lambda>u. succeed (joinpath tmpdir ''remote_scaled.mp4''))
         else succeed working_remote)
        (\<lambda>normalized_remote.
      and_then (has_audio_stream env local_path) (\<lambda>local_has_audio.
      and_then (has_audio_stream env normalized_remote) (\<lambda>remote_has_audio.
      concat_with_reencoding env local_path normalized_remote output_path
        (local_has_audio \<and> remote_has_audio))))))))"

definition merge_local_with_remote :: "env \<Rightarrow> path \<Rightarrow> string \<Rightarrow> path \<Rightarrow> path run" where
  "merge_local_with_remote env local_path0 remote_url output_path0 =
     and_then (expand_user env local_path0) (\<lambda>expanded.
     let local_path = resolve env expanded in
     and_then (path_exists env local_path) (\<lambda>found.
     if \<not> found
     then throw (FileNotFoundError (''Local video does not exist: '' @ local_path))
     else
       and_then (ensure_ffmpeg_available env) (\<lambda>u.
       and_then (expand_user env output_path0) (\<lambda>expanded.
       let output_path = resolve env expanded in
       and_then (mkdir_parents env (parent output_path)) (\<lambda>u.
       and_then
         (with_temporary_directory env
            (merge_in_tmpdir env local_path remote_url output_path))
         (\<lambda>u. succeed output_path))))))"

section \<open>A studio machine, for running the functions on concrete inputs\<close>

definition studio_resolve :: "path \<Rightarrow> path" where
  "studio_resolve p = (if take 1 p = ''/'' then p else ''/work/'' @ p)"

definition studio_popen :: "string list \<Rightarrow> fs \<Rightarrow> completed \<times> (path \<times> string) list" where
  \<comment> \<open>the intro clip is 1280x720 with one audio stream; every other clip is 1920x1080 with
      two audio streams, unless it was rescaled; \<open>ffmpeg\<close> writes its last argument\<close>
  "studio_popen argv f =
     (if argv = [''ffmpeg'', ''-version''] then (Exited 0 ''ffmpeg version 6.0'', [])
      else if take 1 argv = [''ffprobe''] \<and> take 1 (drop 4 argv) = [''v:0''] then
        (if last argv = ''/work/intro.mp4'' \<or> last argv = ''/tmp/tmpk3/remote_scaled.mp4''
         then (Exited 0 ''1280\<newline>720\<newline>'', [])
         else (Exited 0 ''1920\<newline>1080\<newline>'', []))
      else if take 1 argv = [''ffprobe''] then
        (if last argv = ''/work/intro.mp4'' then (Exited 0 ''1\<newline>'', [])
         else (Exited 0 ''1\<newline>2\<newline>'', []))
      else if take 1 argv = [''ffmpeg''] then (Exited 0 [], [(last argv, ''video'')])
      else (NotFound, []))"

definition studio_unknown_home :: "path \<Rightarrow> bool" where
  \<comment> \<open>there is no user \<open>ghost\<close>\<close>
  "studio_unknown_home p = startswith p ''~ghost''"

definition studio_stat_refuses :: "path \<Rightarrow> bool" where
  \<comment> \<open>\<open>PATH_MAX\<close> is 4096: a path of more than 4095 characters is a name too long\<close>
  "studio_stat_refuses p = (4095 < length p)"

definition overlong_url :: string where
  \<comment> \<open>a URL of 4220 characters\<close>
  "overlong_url = ''https://example.org/'' @ replicate 4200 (CHR ''a'')"

definition studio_ytdlp :: "string \<Rightarrow> path \<Rightarrow> fs \<Rightarrow> ytdlp_result \<times> (path \<times> string) list" where
  "studio_ytdlp url template f = (Downloaded ''mp4'', [(''/tmp/tmpk3/remote.mp4'', ''clip'')])"

definition studio_tempname :: "fs \<Rightarrow> path" where
  "studio_tempname f = ''/tmp/tmpk3''"

definition studio :: env where
  "studio =
     \<lparr>unknown_home = studio_unknown_home, expanduser = id, resolve = studio_resolve,
      stat_refuses = studio_stat_refuses, popen = studio_popen,
      ytdlp_importable = True, ytdlp_extract = studio_ytdlp, tempname = studio_tempname\<rparr>"

definition studio_disk :: world where
  "studio_disk =
     \<lparr>files = [''/'' \<mapsto> Dir, ''/tmp'' \<mapsto> Dir, ''/work'' \<mapsto> Dir,
               ''/work/intro.mp4'' \<mapsto> File ''intro'', ''/work/outro.mp4'' \<mapsto> File ''outro''],
      trace = []\<rparr>"

definition always :: "completed \<Rightarrow> string list \<Rightarrow> completed" where
  "always c argv = c"

definition scripted :: "(string list \<Rightarrow> completed) \<Rightarrow> env" where
  \<comment> \<open>a machine without path resolution whose executables answer by a fixed table\<close>
  "scripted answer =
     \<lparr>unknown_home = (\<lambda>p. False), expanduser = id, resolve = id,
      stat_refuses = (\<lambda>p. False), popen = (\<lambda>argv f. (answer argv, [])),
      ytdlp_importable = False, ytdlp_extract = (\<lambda>u t f. (DownloadRaised [], [])),
      tempname = (\<lambda>f. ''/tmp/t'')\<rparr>"

section \<open>The host of a reference, as the specification reads it\<close>

text \<open>
  The code never takes a reference apart. For the comparison with the specification,
  \<open>spec_host\<close> is the host a URL reader sees: the lower-cased text after \<open>://\<close>, up to the
  first \<open>/\<close>, \<open>?\<close> or \<open>#\<close>, without user information and port; it is on a domain when it
  is that domain or one of its subdomains.
\<close>

fun after_sep :: "string \<Rightarrow> string \<Rightarrow> string option" where
  "after_sep sep [] = (if sep = [] then Some [] else None)"
| "after_sep sep (c # cs) =
     (if startswith (c # cs) sep then Some (drop (length sep) (c # cs)) else after_sep sep cs)"

definition spec_host :: "string \<Rightarrow> string" where
  "spec_host reference =
     (let s = lower reference;
          rest = (case after_sep ''://'' s of Some r \<Rightarrow> r | None \<Rightarrow> s);
          authority = takeWhile (\<lambda>c. c \<notin> set ''/?#'') rest;
          hostport = rev (takeWhile (\<lambda>c. c \<noteq> CHR ''@'') (rev authority))
      in takeWhile (\<lambda>c. c \<noteq> CHR '':'') hostport)"

definition spec_host_on_domain :: "string \<Rightarrow> string \<Rightarrow> bool" where
  "spec_host_on_domain host domain =
     (host = domain \<or> startswith (rev host) (rev (CHR ''.'' # domain)))"

definition spec_is_streaming_platform :: "string \<Rightarrow> bool" where
  "spec_is_streaming_platform reference =
     list_ex (spec_host_on_domain (spec_host reference)) STREAMING_DOMAINS"

section \<open>Notions used in the proofs\<close>

definition digits_value :: "nat \<Rightarrow> string \<Rightarrow> nat" where
  \<comment> \<open>the number a string of decimal digits stands for, continuing from \<open>acc\<close>\<close>
  "digits_value acc s = foldl (\<lambda>a c. 10 * a + digit_val c) acc s"

definition steady :: "path \<Rightarrow> 'a run \<Rightarrow> bool" where
  \<comment> \<open>the run only adds to the trace, and keeps a directory at \<open>k\<close> in place\<close>
  "steady k m =
     (\<forall>w r w'. m w = (r, w') \<longrightarrow>
        prefix (trace w) (trace w') \<and> (files w k = Some Dir \<longrightarrow> files w' k = Some Dir))"

section \<open>Worlds reached on the studio machine, and the machine without network\<close>

definition studio_after_mkdir :: world where
  "studio_after_mkdir =
     snd (mkdir_parents studio ''/work/out''
            (log (Subprocess [''ffmpeg'', ''-version'']) studio_disk))"

definition studio_tmp_made :: world where
  "studio_tmp_made = snd (mkdtemp studio studio_after_mkdir)"

definition studio_prepared :: world where
  "studio_prepared =
     snd (prepare_remote_clip studio ''outro.mp4'' ''/tmp/tmpk3/remote.mp4'' studio_tmp_made)"

definition studio_probed_local :: world where
  "studio_probed_local = snd (probe_video_dimensions studio ''/work/intro.mp4'' studio_prepared)"

definition studio_probed_both :: world where
  "studio_probed_both =
     snd (probe_video_dimensions studio ''/tmp/tmpk3/remote.mp4'' studio_probed_local)"

definition studio_scaled :: world where
  "studio_scaled =
     snd (scale_video_to_target studio ''/tmp/tmpk3/remote.mp4'' (1280, 720)
            ''/tmp/tmpk3/remote_scaled.mp4'' studio_probed_both)"

definition studio_heard_local :: world where
  "studio_heard_local = snd (has_audio_stream studio ''/work/intro.mp4'' studio_scaled)"

definition studio_heard_both :: world where
  "studio_heard_both =
     snd (has_audio_stream studio ''/tmp/tmpk3/remote_scaled.mp4'' studio_heard_local)"

definition offline_popen :: "string list \<Rightarrow> fs \<Rightarrow> completed \<times> (path \<times> string) list" where
  "offline_popen argv f =
     (if argv = [''ffmpeg'', ''-version''] then (Exited 0 [], []) else (Exited 1 [], []))"

definition offline :: env where
  \<comment> \<open>the studio machine without network: every call but the version check fails\<close>
  "offline =
     \<lparr>unknown_home = studio_unknown_home, expanduser = id, resolve = studio_resolve,
      stat_refuses = studio_stat_refuses, popen = offline_popen,
      ytdlp_importable = True, ytdlp_extract = studio_ytdlp, tempname = studio_tempname\<rparr>"

definition locked_popen :: "string list \<Rightarrow> fs \<Rightarrow> completed \<times> (path \<times> string) list" where
  "locked_popen argv f = (StartFailed ''[Errno 13] Permission denied'', [])"

definition locked :: env where
  \<comment> \<open>the studio machine with executables that may not be executed\<close>
  "locked =
     \<lparr>unknown_home = studio_unknown_home, expanduser = id, resolve = studio_resolve,
      stat_refuses = studio_stat_refuses, popen = locked_popen,
      ytdlp_importable = True, ytdlp_extract = studio_ytdlp, tempname = studio_tempname\<rparr>"

section \<open>Basic facts\<close>

lemma and_then_Inr: "m w = (Inr x, w1) \<Longrightarrow> and_then m f w = f x w1"
  by (simp add: and_then_def)

lemma and_then_Inl: "m w = (Inl e, w1) \<Longrightarrow> and_then m f w = (Inl e, w1)"
  by (simp add: and_then_def)

lemma popen_scripted: "popen (scripted a) argv f = (a argv, [])"
  by (simp add: scripted_def)

lemma strip_empty_iff: "strip s = [] \<longleftrightarrow> (\<forall>c\<in>set s. is_space c)"
proof
  assume e: "strip s = []"
  show "\<forall>c\<in>set s. is_space c"
  proof (cases "dropWhile is_space s")
    case Nil
    then show ?thesis by simp
  next
    case (Cons y ys)
    then have "\<not> is_space y" by (metis hd_dropWhile list.sel(1) list.distinct(1))
    moreover from e have "\<forall>x\<in>set (dropWhile is_space s). is_space x"
      by (simp add: strip_def)
    ultimately show ?thesis using Cons by simp
  qed
next
  assume "\<forall>c\<in>set s. is_space c"
  then have d: "dropWhile is_space s = []" by simp
  show "strip s = []" unfolding strip_def d by simp
qed

lemma expand_user_known:
  "\<not> unknown_home env p \<Longrightarrow> expand_user env p w = (Inr (expanduser env p), w)"
  by (simp add: expand_user_def succeed_def)

lemma path_exists_fst: "fst (path_exists env p w) = Inr b \<Longrightarrow> path_exists env p w = (Inr b, w)"
  by (auto simp add: path_exists_def split: if_splits)

section \<open>The audio-presence probe\<close>

lemma has_audio_stream_result:
  assumes "popen env
             [''ffprobe'', ''-v'', ''error'', ''-select_streams'', ''a'',
              ''-show_entries'', ''stream=index'',
              ''-of'', ''default=noprint_wrappers=1:nokey=1'', p] (files w) = (Exited 0 out, ws)"
  shows "fst (has_audio_stream env p w) = Inr (\<exists>c\<in>set out. \<not> is_space c)"
  using assms
  by (simp add: has_audio_stream_def and_then_def reraise_def subprocess_run_def succeed_def
      strip_empty_iff)

text \<open>
  C9. The audio-stream-index inspection prints one line with the index of each audio
  stream and nothing when there is none, so its output is either empty or holds a
  character that is not white space. For every such output of a completed inspection,
  \<open>_has_audio_stream\<close> reports audio present if and only if the output is non-empty:
  non-empty output means present, empty output means absent, and the number of index
  lines plays no role.
\<close>

theorem has_audio_stream_presence:
  assumes "popen env
             [''ffprobe'', ''-v'', ''error'', ''-select_streams'', ''a'',
              ''-show_entries'', ''stream=index'',
              ''-of'', ''default=noprint_wrappers=1:nokey=1'', p] (files w) = (Exited 0 out, ws)"
      and "out = [] \<or> (\<exists>c\<in>set out. \<not> is_space c)"
  shows "fst (has_audio_stream env p w) = Inr (out \<noteq> [])"
  using has_audio_stream_result [OF assms(1)] assms(2) by auto

text \<open>Two audio streams, one audio stream, no audio stream.\<close>

theorem has_audio_stream_presence_witness:
  "fst (has_audio_stream (scripted (always (Exited 0 ''1\<newline>2\<newline>''))) ''/work/intro.mp4'' studio_disk)
     = Inr True
   \<and> fst (has_audio_stream (scripted (always (Exited 0 ''1\<newline>''))) ''/work/intro.mp4'' studio_disk)
     = Inr True
   \<and> fst (has_audio_stream (scripted (always (Exited 0 []))) ''/work/intro.mp4'' studio_disk)
     = Inr False"
proof -
  have two: "''1\<newline>2\<newline>'' = [] \<or> (\<exists>c\<in>set ''1\<newline>2\<newline>''. \<not> is_space c)"
    by (simp add: is_space_def)
  have one: "''1\<newline>'' = [] \<or> (\<exists>c\<in>set ''1\<newline>''. \<not> is_space c)"
    by (simp add: is_space_def)
  have none: "([] :: string) = [] \<or> (\<exists>c\<in>set ([] :: string). \<not> is_space c)"
    by simp
  have p: "\<And>c argv f. popen (scripted (always c)) argv f = (c, [])"
    by (simp add: popen_scripted always_def)
  from has_audio_stream_presence [OF p two, of "''/work/intro.mp4''" studio_disk]
       has_audio_stream_presence [OF p one, of "''/work/intro.mp4''" studio_disk]
       has_audio_stream_presence [OF p none, of "''/work/intro.mp4''" studio_disk]
  show ?thesis by simp
qed

section \<open>The dimensions probe\<close>

lemma probe_lines_4:
  "probe_lines ''1280\<newline>720\<newline>1280\<newline>720\<newline>'' = [''1280'', ''720'', ''1280'', ''720'']"
  by code_simp

lemma py_int_1280: "py_int ''1280'' = Some 1280"
  by code_simp

lemma py_int_720: "py_int ''720'' = Some 720"
  by code_simp

text \<open>
  C5 (as amended). When the width/height inspection exits with status 0,
  \<open>_probe_video_dimensions\<close> returns the pair \<open>(width, height)\<close> exactly when the output
  has at least two non-empty lines and the first two of them read as the integers
  \<open>width\<close> and \<open>height\<close>; lines after the second are ignored. With fewer than two
  non-empty lines it raises \<open>RuntimeError\<close> (the probe failure).
\<close>

theorem probe_video_dimensions_result:
  assumes "popen env
             [''ffprobe'', ''-v'', ''error'', ''-select_streams'', ''v:0'',
              ''-show_entries'', ''stream=width,height'',
              ''-of'', ''default=noprint_wrappers=1:nokey=1'', p] (files w) = (Exited 0 out, ws)"
  shows "(fst (probe_video_dimensions env p w) = Inr (wd, ht)
            \<longleftrightarrow> (\<exists>l0 l1 rest. probe_lines out = l0 # l1 # rest
                   \<and> py_int l0 = Some wd \<and> py_int l1 = Some ht))
         \<and> (length (probe_lines out) < 2
            \<longrightarrow> fst (probe_video_dimensions env p w)
                  = Inl (RuntimeError (''Unable to determine dimensions for '' @ p)))"
  using assms
  by (auto simp add: probe_video_dimensions_def and_then_def reraise_def subprocess_run_def
      succeed_def throw_def split: list.splits option.splits)

theorem probe_video_dimensions_result_witness:
  "fst (probe_video_dimensions (scripted (always (Exited 0 ''1280\<newline>720\<newline>'')))
          ''/work/intro.mp4'' studio_disk) = Inr (1280, 720)"
proof -
  have l: "probe_lines ''1280\<newline>720\<newline>'' = [''1280'', ''720'']" by code_simp
  show ?thesis
    using probe_video_dimensions_result
      [of "scripted (always (Exited 0 ''1280\<newline>720\<newline>''))" "''/work/intro.mp4''" studio_disk
          "''1280\<newline>720\<newline>''" "[]" 1280 720]
    by (simp add: popen_scripted always_def l py_int_1280 py_int_720)
qed

text \<open>
  C5 as stated fails: an inspection output of four non-empty lines (a stream that is
  listed twice) still yields a pair.
\<close>

theorem probe_video_dimensions_four_lines_counterexample:
  "length (probe_lines ''1280\<newline>720\<newline>1280\<newline>720\<newline>'') = 4
   \<and> fst (probe_video_dimensions
            (scripted (always (Exited 0 ''1280\<newline>720\<newline>1280\<newline>720\<newline>'')))
            ''/work/intro.mp4'' studio_disk) = Inr (1280, 720)"
  by (simp add: probe_video_dimensions_def and_then_def reraise_def subprocess_run_def
      succeed_def popen_scripted always_def probe_lines_4 py_int_1280 py_int_720)

section \<open>Choosing the acquisition strategy by domain\<close>

lemma startswith_iff_prefix: "startswith s p = prefix p s"
  by (induction s p rule: startswith.induct) auto

lemma str_in_iff_sublist: "str_in n s = sublist n s"
  by (induction s) (auto simp add: startswith_iff_prefix sublist_Cons_right)

lemma after_sep_suffix: "after_sep sep s = Some r \<Longrightarrow> suffix r s"
proof (induction s)
  case Nil
  then show ?case by (simp split: if_splits)
next
  case (Cons c cs)
  show ?case
  proof (cases "startswith (c # cs) sep")
    case True
    with Cons.prems have "r = drop (length sep) (c # cs)" by simp
    then show ?thesis by (simp only: suffix_drop)
  next
    case False
    with Cons.prems have "after_sep sep cs = Some r" by simp
    then have "suffix r cs" by (rule Cons.IH)
    then show ?thesis by (rule suffix_ConsI)
  qed
qed

lemma spec_host_sublist: "sublist (spec_host u) (lower u)"
proof -
  define s where "s = lower u"
  define rest where "rest = (case after_sep ''://'' s of Some r \<Rightarrow> r | None \<Rightarrow> s)"
  define authority where "authority = takeWhile (\<lambda>c. c \<notin> set ''/?#'') rest"
  define hostport where "hostport = rev (takeWhile (\<lambda>c. c \<noteq> CHR ''@'') (rev authority))"
  have h: "spec_host u = takeWhile (\<lambda>c. c \<noteq> CHR '':'') hostport"
    unfolding spec_host_def Let_def s_def rest_def authority_def hostport_def by (rule refl)
  have 1: "sublist rest s"
    by (auto simp add: rest_def split: option.splits dest: after_sep_suffix)
  have 2: "sublist authority rest"
    unfolding authority_def by (rule prefix_imp_sublist) (rule takeWhile_is_prefix)
  have "prefix (takeWhile (\<lambda>c. c \<noteq> CHR ''@'') (rev authority)) (rev authority)"
    by (rule takeWhile_is_prefix)
  then have "suffix hostport authority"
    unfolding hostport_def by (simp add: suffix_to_prefix)
  then have 3: "sublist hostport authority" by (rule suffix_imp_sublist)
  have 4: "sublist (spec_host u) hostport"
    unfolding h by (rule prefix_imp_sublist) (rule takeWhile_is_prefix)
  from 4 3 2 1 show ?thesis
    unfolding s_def by (meson sublist_order.order.trans)
qed

lemma on_domain_sublist: "spec_host_on_domain h d \<Longrightarrow> sublist d h"
proof -
  assume "spec_host_on_domain h d"
  then consider "h = d" | "prefix (rev (CHR ''.'' # d)) (rev h)"
    by (auto simp add: spec_host_on_domain_def startswith_iff_prefix)
  then show ?thesis
  proof cases
    case 1
    then show ?thesis by simp
  next
    case 2
    then have "suffix (CHR ''.'' # d) h" by (simp add: suffix_to_prefix)
    then have "suffix d h" by (rule suffix_ConsD)
    then show ?thesis by (rule suffix_imp_sublist)
  qed
qed

lemma is_streaming_url_iff:
  "is_streaming_url u \<longleftrightarrow> (\<exists>d\<in>set STREAMING_DOMAINS. sublist d (lower u))"
  by (simp add: is_streaming_url_def Let_def list_ex_iff str_in_iff_sublist)

lemma spec_streaming_imp: "spec_is_streaming_platform u \<Longrightarrow> is_streaming_url u"
proof -
  assume "spec_is_streaming_platform u"
  then obtain d where d: "d \<in> set STREAMING_DOMAINS" "spec_host_on_domain (spec_host u) d"
    by (auto simp add: spec_is_streaming_platform_def list_ex_iff)
  from d(2) have "sublist d (spec_host u)" by (rule on_domain_sublist)
  with spec_host_sublist have "sublist d (lower u)" by (meson sublist_order.order.trans)
  with d(1) show ?thesis by (auto simp add: is_streaming_url_iff)
qed

text \<open>
  C4 (as amended). Take a remote reference whose \<open>expanduser\<close> and existence test complete
  and find no local path. It goes to the streaming-platform downloader if and only if
  its lower-cased text contains one of the known streaming domains as a substring,
  anywhere in the reference; otherwise it goes to the generic stream copy. In particular
  every such reference whose host is a known streaming domain (or a subdomain of one)
  goes to the downloader, whatever the rest of the URL looks like.
\<close>

theorem streaming_url_routing:
  "(is_streaming_url u \<longleftrightarrow> (\<exists>d\<in>set STREAMING_DOMAINS. sublist d (lower u)))
   \<and> (spec_is_streaming_platform u \<longrightarrow> is_streaming_url u)
   \<and> (\<not> unknown_home env u \<and> fst (path_exists env (expanduser env u) w) = Inr False \<longrightarrow>
        prepare_remote_clip env u dest w =
          (if is_streaming_url u then download_with_ytdlp env u dest w
           else download_remote_clip env u dest w))"
  by (auto simp add: is_streaming_url_iff [symmetric] spec_streaming_imp prepare_remote_clip_def
      expand_user_def succeed_def and_then_def path_exists_def split: if_splits)

lemma studio_url_not_a_file:
  "\<not> unknown_home studio ''https://youtu.be/XXXX''"
  "fst (path_exists studio (expanduser studio ''https://youtu.be/XXXX'') studio_disk) = Inr False"
  by (simp_all add: path_exists_def studio_def studio_disk_def studio_resolve_def
      studio_unknown_home_def studio_stat_refuses_def)

theorem streaming_url_routing_witness:
  "spec_is_streaming_platform ''https://youtu.be/XXXX''
   \<and> is_streaming_url ''https://youtu.be/XXXX''
   \<and> prepare_remote_clip studio ''https://youtu.be/XXXX'' ''/tmp/tmpk3/remote.mp4'' studio_disk
       = download_with_ytdlp studio ''https://youtu.be/XXXX'' ''/tmp/tmpk3/remote.mp4'' studio_disk"
proof -
  have s: "spec_is_streaming_platform ''https://youtu.be/XXXX''" by code_simp
  note r = streaming_url_routing
      [of "''https://youtu.be/XXXX''" studio studio_disk "''/tmp/tmpk3/remote.mp4''"]
  from r s have i: "is_streaming_url ''https://youtu.be/XXXX''" by blast
  from r studio_url_not_a_file
  have "prepare_remote_clip studio ''https://youtu.be/XXXX'' ''/tmp/tmpk3/remote.mp4'' studio_disk
          = (if is_streaming_url ''https://youtu.be/XXXX''
             then download_with_ytdlp studio ''https://youtu.be/XXXX'' ''/tmp/tmpk3/remote.mp4''
                    studio_disk
             else download_remote_clip studio ''https://youtu.be/XXXX'' ''/tmp/tmpk3/remote.mp4''
                    studio_disk)"
    by blast
  with i s show ?thesis by (simp only: if_True simp_thms)
qed

text \<open>
  C4 as stated fails: the host \<open>example.org\<close> is on no streaming domain, the path of the
  URL mentions one, the reference is no local path, and it is handed to the downloader.
\<close>

theorem streaming_url_path_mention_counterexample:
  "\<not> spec_is_streaming_platform ''https://example.org/youtube.com.mp4''
   \<and> fst (path_exists studio (expanduser studio ''https://example.org/youtube.com.mp4'')
            studio_disk) = Inr False
   \<and> trace (snd (prepare_remote_clip studio ''https://example.org/youtube.com.mp4''
                  ''/tmp/tmpk3/remote.mp4'' studio_disk))
       = [Mkdir ''/tmp/tmpk3'',
          YtDlp ''https://example.org/youtube.com.mp4'' ''/tmp/tmpk3/remote.%(ext)s'',
          Replace ''/tmp/tmpk3/remote.mp4'' ''/tmp/tmpk3/remote.mp4'']"
proof -
  have a: "\<not> spec_is_streaming_platform ''https://example.org/youtube.com.mp4''"
    by code_simp
  have b: "fst (path_exists studio (expanduser studio ''https://example.org/youtube.com.mp4'')
             studio_disk) = Inr False"
    by code_simp
  have c: "trace (snd (prepare_remote_clip studio ''https://example.org/youtube.com.mp4''
                  ''/tmp/tmpk3/remote.mp4'' studio_disk))
       = [Mkdir ''/tmp/tmpk3'',
          YtDlp ''https://example.org/youtube.com.mp4'' ''/tmp/tmpk3/remote.%(ext)s'',
          Replace ''/tmp/tmpk3/remote.mp4'' ''/tmp/tmpk3/remote.mp4'']"
    by code_simp
  from a b c show ?thesis by blast
qed

section \<open>The rescale step\<close>

lemma digit_char_facts:
  assumes "k < 10"
  shows "is_digit (char_of (48 + k))" "digit_val (char_of (48 + k)) = k"
        "\<not> is_space (char_of (48 + k))" "char_of (48 + k) \<noteq> CHR ''-''"
        "char_of (48 + k) \<noteq> CHR ''+''"
proof -
  have o: "(of_char (char_of (48 + k) :: char) :: nat) = 48 + k"
    using assms by simp
  show "is_digit (char_of (48 + k))" using assms by (simp add: is_digit_def o)
  show "digit_val (char_of (48 + k)) = k" using assms by (simp add: digit_val_def o)
  show "\<not> is_space (char_of (48 + k))" using assms by (simp add: is_space_def o)
  show "char_of (48 + k) \<noteq> CHR ''-''"
  proof
    assume "char_of (48 + k) = CHR ''-''"
    then have "(of_char (char_of (48 + k) :: char) :: nat) = of_char CHR ''-''" by simp
    then show False using assms by simp
  qed
  show "char_of (48 + k) \<noteq> CHR ''+''"
  proof
    assume "char_of (48 + k) = CHR ''+''"
    then have "(of_char (char_of (48 + k) :: char) :: nat) = of_char CHR ''+''" by simp
    then show False using assms by simp
  qed
qed

lemma parse_digits_all_digits:
  "\<forall>c\<in>set s. is_digit c \<Longrightarrow> parse_digits acc s = Some (digits_value acc s)"
  by (induction s arbitrary: acc) (simp_all add: digits_value_def)

lemma str_nat_digits: "(\<forall>c\<in>set (str_nat n). is_digit c) \<and> digits_value 0 (str_nat n) = n
   \<and> str_nat n \<noteq> [] \<and> \<not> is_space (last (str_nat n))"
proof (induction n rule: str_nat.induct)
  case (1 n)
  show ?case
  proof (cases "n < 10")
    case True
    then show ?thesis
      by (subst (1 2 3 4) str_nat.simps) (simp add: digit_char_facts digits_value_def)
  next
    case False
    have m: "n mod 10 < 10" by simp
    from False 1 have ih: "\<forall>c\<in>set (str_nat (n div 10)). is_digit c"
      "digits_value 0 (str_nat (n div 10)) = n div 10" by simp_all
    from False have e: "str_nat n = str_nat (n div 10) @ [char_of (48 + n mod 10)]"
      by (subst str_nat.simps) simp
    show ?thesis
      unfolding e using ih m
      by (simp add: digit_char_facts digits_value_def)
  qed
qed

lemma parse_unsigned_str_nat: "parse_unsigned (str_nat n) = Some n"
proof -
  from str_nat_digits [of n] obtain c cs where e: "str_nat n = c # cs"
    by (cases "str_nat n") auto
  with str_nat_digits [of n] have d: "is_digit c" "\<forall>x\<in>set cs. is_digit x"
    and v: "digits_value 0 (c # cs) = n" by auto
  have "parse_unsigned (c # cs) = Some (digits_value (digit_val c) cs)"
    using d by (simp add: parse_unsigned_def parse_digits_all_digits)
  also have "digits_value (digit_val c) cs = digits_value 0 (c # cs)"
    by (simp add: digits_value_def)
  finally show ?thesis using e v by simp
qed

lemma strip_id: "s \<noteq> [] \<Longrightarrow> \<not> is_space (hd s) \<Longrightarrow> \<not> is_space (last s) \<Longrightarrow> strip s = s"
proof -
  assume a: "s \<noteq> []" "\<not> is_space (hd s)" "\<not> is_space (last s)"
  then have 1: "dropWhile is_space s = s" by (cases s) auto
  from a have "dropWhile is_space (rev s) = rev s"
    by (cases "rev s") (auto simp add: last_rev [symmetric] hd_rev)
  with 1 show ?thesis by (simp add: strip_def)
qed

lemma hd_str_nat: "is_digit (hd (str_nat n))"
  using str_nat_digits [of n] by (cases "str_nat n") auto

lemma digit_not_space: "is_digit c \<Longrightarrow> \<not> is_space c"
  by (auto simp add: is_digit_def is_space_def)

lemma digit_not_sign: "is_digit c \<Longrightarrow> c \<noteq> CHR ''-'' \<and> c \<noteq> CHR ''+''"
  by (auto simp add: is_digit_def)

lemma py_int_str_int: "py_int (str_int i) = Some i"
proof (cases "i < 0")
  case True
  let ?s = "CHR ''-'' # str_nat (nat (- i))"
  have "strip ?s = ?s"
    using str_nat_digits [of "nat (- i)"] by (intro strip_id) (simp_all add: is_space_def)
  then show ?thesis
    using True by (simp add: py_int_def str_int_def parse_unsigned_str_nat)
next
  case False
  let ?s = "str_nat (nat i)"
  obtain c cs where e: "?s = c # cs"
    using str_nat_digits [of "nat i"] by (cases ?s) auto
  have d: "is_digit c" using hd_str_nat [of "nat i"] e by simp
  have "strip ?s = ?s"
    using str_nat_digits [of "nat i"] d e by (intro strip_id) (simp_all add: digit_not_space)
  then have "py_int ?s = map_option int (parse_unsigned ?s)"
    using e d digit_not_sign [of c] by (simp add: py_int_def)
  then show ?thesis
    using False by (simp add: str_int_def parse_unsigned_str_nat)
qed

text \<open>
  What the rescale step asks of \<open>ffmpeg\<close>. Whatever the target pair \<open>(width, height)\<close>,
  the step runs \<open>ffmpeg\<close> once on the source with the video filter ``scale to
  \<open>width:height\<close> with \<open>force_original_aspect_ratio=decrease\<close>, then pad to \<open>width:height\<close>
  with the picture centred'', video codec \<open>libx264\<close> and audio codec \<open>copy\<close>. The two
  numbers written into the filter are the decimal forms of the target dimensions. What
  \<open>ffmpeg\<close> makes of this request, the geometry of the frames it writes and the audio
  samples it passes on, is the tool's own arithmetic and not part of this program.
\<close>

lemma scale_video_to_target_request:
  "trace (snd (scale_video_to_target env src (wd, ht) dst w))
     = trace w @
       [Subprocess
          [''ffmpeg'', ''-y'', ''-i'', src,
           ''-vf'',
           ''scale='' @ str_int wd @ '':'' @ str_int ht
             @ '':force_original_aspect_ratio=decrease,''
             @ ''pad='' @ str_int wd @ '':'' @ str_int ht @ '':(ow-iw)/2:(oh-ih)/2'',
           ''-c:v'', ''libx264'', ''-preset'', ''fast'', ''-pix_fmt'', ''yuv420p'',
           ''-c:a'', ''copy'', dst]]
   \<and> py_int (str_int wd) = Some wd \<and> py_int (str_int ht) = Some ht"
  by (simp add: py_int_str_int scale_video_to_target_def scale_vf_def and_then_def
      subprocess_run_def succeed_def log_def split: prod.splits completed.splits)

lemma studio_trace_empty: "trace studio_disk = []"
  by (simp add: studio_disk_def)

lemma scale_video_to_target_request_studio:
  "trace (snd (scale_video_to_target studio ''/tmp/tmpk3/remote.mp4'' (1280, 720)
                 ''/tmp/tmpk3/remote_scaled.mp4'' studio_disk))
     = [Subprocess
          [''ffmpeg'', ''-y'', ''-i'', ''/tmp/tmpk3/remote.mp4'',
           ''-vf'',
           ''scale=1280:720:force_original_aspect_ratio=decrease,pad=1280:720:(ow-iw)/2:(oh-ih)/2'',
           ''-c:v'', ''libx264'', ''-preset'', ''fast'', ''-pix_fmt'', ''yuv420p'',
           ''-c:a'', ''copy'', ''/tmp/tmpk3/remote_scaled.mp4'']]"
proof -
  have a: "str_int 1280 = ''1280''" by code_simp
  have b: "str_int 720 = ''720''" by code_simp
  show ?thesis
    using scale_video_to_target_request
      [of studio "''/tmp/tmpk3/remote.mp4''" 1280 720 "''/tmp/tmpk3/remote_scaled.mp4''"
          studio_disk]
    by (simp add: a b studio_trace_empty)
qed

section \<open>Failing fast\<close>

lemma ensure_ffmpeg_available_fails:
  assumes "fst (popen env [''ffmpeg'', ''-version''] (files w)) = NotFound
           \<or> (\<exists>rc out. fst (popen env [''ffmpeg'', ''-version''] (files w)) = Exited rc out
                  \<and> rc \<noteq> 0)"
  shows "\<exists>m w1. ensure_ffmpeg_available env w = (Inl (RuntimeError m), w1)
         \<and> trace w1 = trace w @ [Subprocess [''ffmpeg'', ''-version'']]
         \<and> m \<in> {''ffmpeg is required to merge videos; please install it.'',
                 ''Unable to run ffmpeg binary.''}"
  using assms
  by (cases "popen env [''ffmpeg'', ''-version''] (files w)")
     (auto simp add: ensure_ffmpeg_available_def reraise_def and_then_def subprocess_run_def
       succeed_def log_def split: completed.splits)

text \<open>
  Where the expansion of the local path and its existence test complete, and where
  \<open>ffmpeg\<close> is missing or exits with an error, the call behaves as its docstring says:
  a local clip that does not exist gives \<open>FileNotFoundError\<close> with the world left
  exactly as it was, and a failing guard gives \<open>RuntimeError\<close> with the version check as
  the only effect.
\<close>

lemma merge_fails_fast:
  assumes "\<not> unknown_home env local_path"
  shows
  "(fst (path_exists env (resolve env (expanduser env local_path)) w) = Inr False \<longrightarrow>
      merge_local_with_remote env local_path remote_url output_path w
        = (Inl (FileNotFoundError
                  (''Local video does not exist: '' @ resolve env (expanduser env local_path))),
           w))
   \<and> (fst (path_exists env (resolve env (expanduser env local_path)) w) = Inr True
        \<and> (fst (popen env [''ffmpeg'', ''-version''] (files w)) = NotFound
           \<or> (\<exists>rc out. fst (popen env [''ffmpeg'', ''-version''] (files w)) = Exited rc out
                  \<and> rc \<noteq> 0)) \<longrightarrow>
      (\<exists>m. fst (merge_local_with_remote env local_path remote_url output_path w)
              = Inl (RuntimeError m)
          \<and> m \<in> {''ffmpeg is required to merge videos; please install it.'',
                  ''Unable to run ffmpeg binary.''})
      \<and> trace (snd (merge_local_with_remote env local_path remote_url output_path w))
          = trace w @ [Subprocess [''ffmpeg'', ''-version'']])"
proof (intro conjI impI)
  have x: "expand_user env local_path w = (Inr (expanduser env local_path), w)"
    using assms by (simp add: expand_user_def succeed_def)
  {
    assume "fst (path_exists env (resolve env (expanduser env local_path)) w) = Inr False"
    then have "path_exists env (resolve env (expanduser env local_path)) w = (Inr False, w)"
      by (auto simp add: path_exists_def split: if_splits)
    then show "merge_local_with_remote env local_path remote_url output_path w
        = (Inl (FileNotFoundError
                  (''Local video does not exist: '' @ resolve env (expanduser env local_path))),
           w)"
      by (simp add: merge_local_with_remote_def Let_def and_then_def x throw_def)
  }
  {
    assume a: "fst (path_exists env (resolve env (expanduser env local_path)) w) = Inr True
        \<and> (fst (popen env [''ffmpeg'', ''-version''] (files w)) = NotFound
           \<or> (\<exists>rc out. fst (popen env [''ffmpeg'', ''-version''] (files w)) = Exited rc out
                  \<and> rc \<noteq> 0))"
    then obtain m w1 where m: "ensure_ffmpeg_available env w = (Inl (RuntimeError m), w1)"
       "trace w1 = trace w @ [Subprocess [''ffmpeg'', ''-version'']]"
       "m \<in> {''ffmpeg is required to merge videos; please install it.'',
                   ''Unable to run ffmpeg binary.''}"
      using ensure_ffmpeg_available_fails [of env w] by blast
    from a have e: "path_exists env (resolve env (expanduser env local_path)) w = (Inr True, w)"
      by (auto simp add: path_exists_def split: if_splits)
    have r: "merge_local_with_remote env local_path remote_url output_path w
        = (Inl (RuntimeError m), w1)"
      unfolding merge_local_with_remote_def Let_def
      by (simp add: and_then_def x e m(1))
    from r m(3) show "\<exists>m. fst (merge_local_with_remote env local_path remote_url output_path w)
                = Inl (RuntimeError m)
            \<and> m \<in> {''ffmpeg is required to merge videos; please install it.'',
                    ''Unable to run ffmpeg binary.''}"
      by auto
    from r show "trace (snd (merge_local_with_remote env local_path remote_url output_path w))
            = trace w @ [Subprocess [''ffmpeg'', ''-version'']]"
      by (simp add: m(2))
  }
qed

text \<open>
  C7. The claim does not hold of the code on every input. An \<open>ffmpeg\<close> that is on the
  \<open>PATH\<close> but may not be executed makes \<open>subprocess.run\<close> raise \<open>PermissionError\<close>, which
  the guard catches no more than any other \<open>OSError\<close>: the call fails with an I/O error,
  not with the guard's \<open>RuntimeError\<close>. And a local path \<open>~ghost/intro.mp4\<close> for a user
  that does not exist names no file, yet the call fails in \<open>expanduser\<close> with
  \<open>RuntimeError\<close>, before the existence test, and not with \<open>FileNotFoundError\<close>. Both
  contradict the docstring of \<open>merge_local_with_remote\<close>.
\<close>

theorem merge_guard_and_missing_clip_escape:
  "fst (merge_local_with_remote locked ''intro.mp4'' ''https://youtu.be/XXXX'' ''out/merged.mp4''
          studio_disk)
     = Inl (OSError ''[Errno 13] Permission denied'')
   \<and> files studio_disk (resolve studio ''~ghost/intro.mp4'') = None
   \<and> merge_local_with_remote studio ''~ghost/intro.mp4'' ''https://youtu.be/XXXX''
        ''out/merged.mp4'' studio_disk
     = (Inl (RuntimeError ''Could not determine home directory.''), studio_disk)"
proof -
  have 1: "fst (merge_local_with_remote locked ''intro.mp4'' ''https://youtu.be/XXXX''
                  ''out/merged.mp4'' studio_disk)
     = Inl (OSError ''[Errno 13] Permission denied'')"
    by (simp add: merge_local_with_remote_def Let_def and_then_def expand_user_def succeed_def
        path_exists_def ensure_ffmpeg_available_def reraise_def subprocess_run_def
        locked_def locked_popen_def studio_unknown_home_def studio_stat_refuses_def
        studio_resolve_def studio_disk_def)
  have 2: "files studio_disk (resolve studio ''~ghost/intro.mp4'') = None"
    by (simp add: studio_def studio_resolve_def studio_disk_def)
  have 3: "merge_local_with_remote studio ''~ghost/intro.mp4'' ''https://youtu.be/XXXX''
        ''out/merged.mp4'' studio_disk
     = (Inl (RuntimeError ''Could not determine home directory.''), studio_disk)"
    by (simp add: merge_local_with_remote_def and_then_def expand_user_def throw_def
        studio_def studio_unknown_home_def)
  from 1 2 3 show ?thesis by simp
qed

section \<open>The temporary directory\<close>

lemma run_pair: "fst (m w) = r \<Longrightarrow> m w = (r, snd (m w))"
  by (simp add: prod_eq_iff)

lemma on_exit_rmtree:
  assumes "on_exit body (rmtree env t) w = (r, w')"
  shows "(\<forall>k. inside (resolve env t) k \<longrightarrow> files w' k = None)
         \<and> trace w' = trace (snd (body w)) @ [Rmtree t] \<and> r = fst (body w)"
  using assms
  by (cases "body w") (auto simp add: on_exit_def rmtree_def log_def)

lemma with_temporary_directory_cleans:
  assumes "mkdtemp env w = (Inr t, w0)"
      and "with_temporary_directory env body w = (r, w')"
  shows "(\<forall>k. inside (resolve env t) k \<longrightarrow> files w' k = None)
         \<and> trace w' = trace (snd (body t w0)) @ [Rmtree t] \<and> r = fst (body t w0)"
  using assms on_exit_rmtree [of "body t" env t w0 r w']
  by (simp add: with_temporary_directory_def and_then_def)

lemma and_then_by_parts:
  "and_then m f w = (case fst (m w) of Inl e \<Rightarrow> (Inl e, snd (m w)) | Inr x \<Rightarrow> f x (snd (m w)))"
  by (cases "m w") (auto simp add: and_then_def split: sum.splits)

lemma merge_result_from_body:
  assumes ex: "fst (path_exists env (resolve env (expanduser env local_path)) w) = Inr True"
      and guard: "ensure_ffmpeg_available env w = (Inr (), w1)"
      and mk: "mkdir_parents env (parent (resolve env (expanduser env output_path))) w1
                 = (Inr (), w2)"
      and tmp: "mkdtemp env w2 = (Inr tmpdir, w3)"
      and known: "\<not> unknown_home env local_path" "\<not> unknown_home env output_path"
  shows "fst (merge_local_with_remote env local_path remote_url output_path w)
           = (case fst (merge_in_tmpdir env (resolve env (expanduser env local_path)) remote_url
                          (resolve env (expanduser env output_path)) tmpdir w3) of
                Inl e \<Rightarrow> Inl e
              | Inr u \<Rightarrow> Inr (resolve env (expanduser env output_path)))"
proof -
  let ?lp = "resolve env (expanduser env local_path)"
  let ?op = "resolve env (expanduser env output_path)"
  let ?body = "merge_in_tmpdir env ?lp remote_url ?op"
  from ex have e: "path_exists env ?lp w = (Inr True, w)"
    by (rule path_exists_fst)
  obtain x w' where wt: "with_temporary_directory env ?body w2 = (x, w')"
    by (cases "with_temporary_directory env ?body w2") auto
  from with_temporary_directory_cleans [OF tmp wt] have x: "x = fst (?body tmpdir w3)"
    by simp
  show ?thesis
    unfolding merge_local_with_remote_def Let_def
    by (simp add: and_then_def expand_user_known [OF known(1)] expand_user_known [OF known(2)]
        e guard mk wt succeed_def x [symmetric] split: sum.splits)
qed

text \<open>
  C8. Take any call of \<open>merge_local_with_remote\<close> that gets as far as acquiring its
  temporary directory \<open>tmpdir\<close>: the two paths of the caller expand, the local clip
  exists, the toolchain guard passed, the output's parent directory was made, and
  \<open>mkdtemp\<close> returned \<open>tmpdir\<close>. Then, whatever
  happens inside (success, or an exception of any stage), when the call returns nothing
  is left at \<open>tmpdir\<close> or below it, and removing it was the last thing the call did.
\<close>

theorem temporary_directory_removed:
  assumes "fst (path_exists env (resolve env (expanduser env local_path)) w) = Inr True"
      and "ensure_ffmpeg_available env w = (Inr (), w1)"
      and "mkdir_parents env (parent (resolve env (expanduser env output_path))) w1
             = (Inr (), w2)"
      and "mkdtemp env w2 = (Inr tmpdir, w3)"
      and known: "\<not> unknown_home env local_path" "\<not> unknown_home env output_path"
  shows "(\<forall>k. inside (resolve env tmpdir) k \<longrightarrow>
            files (snd (merge_local_with_remote env local_path remote_url output_path w)) k
              = None)
         \<and> last (trace (snd (merge_local_with_remote env local_path remote_url output_path w)))
             = Rmtree tmpdir"
proof -
  let ?lp = "resolve env (expanduser env local_path)"
  let ?op = "resolve env (expanduser env output_path)"
  let ?body = "merge_in_tmpdir env ?lp remote_url ?op"
  from assms(1) have e: "path_exists env ?lp w = (Inr True, w)"
    by (rule path_exists_fst)
  obtain r w' where b: "with_temporary_directory env ?body w2 = (r, w')"
    by (cases "with_temporary_directory env ?body w2") auto
  from with_temporary_directory_cleans [OF assms(4) b]
  have c: "\<forall>k. inside (resolve env tmpdir) k \<longrightarrow> files w' k = None"
    "trace w' = trace (snd (?body tmpdir w3)) @ [Rmtree tmpdir]"
    by blast+
  have "snd (merge_local_with_remote env local_path remote_url output_path w) = w'"
    unfolding merge_local_with_remote_def Let_def
    by (cases r)
       (simp_all add: and_then_def expand_user_known [OF known(1)]
          expand_user_known [OF known(2)] e assms(2) assms(3) b succeed_def)
  with c show ?thesis by simp
qed

lemma studio_paths:
  "resolve studio (expanduser studio ''intro.mp4'') = ''/work/intro.mp4''"
  "resolve studio (expanduser studio ''out/merged.mp4'') = ''/work/out/merged.mp4''"
  "parent ''/work/out/merged.mp4'' = ''/work/out''"
  "resolve studio ''/tmp/tmpk3'' = ''/tmp/tmpk3''"
  by (simp_all add: studio_def studio_resolve_def parent_def)

lemma studio_known:
  "\<not> unknown_home studio ''intro.mp4''"
  "\<not> unknown_home studio ''out/merged.mp4''"
  "\<not> unknown_home studio ''outro.mp4''"
  by (simp_all add: studio_def studio_unknown_home_def)

lemma studio_intro_exists:
  "fst (path_exists studio ''/work/intro.mp4'' studio_disk) = Inr True"
  by (simp add: path_exists_def studio_def studio_resolve_def studio_disk_def
      studio_stat_refuses_def)

lemma studio_guard:
  "ensure_ffmpeg_available studio w = (Inr (), log (Subprocess [''ffmpeg'', ''-version'']) w)"
  by (simp add: ensure_ffmpeg_available_def reraise_def and_then_def subprocess_run_def
      succeed_def studio_def studio_popen_def)

lemma studio_mkdir:
  "mkdir_parents studio ''/work/out'' (log (Subprocess [''ffmpeg'', ''-version'']) studio_disk)
     = (Inr (), studio_after_mkdir)"
proof -
  have "fst (mkdir_parents studio ''/work/out''
               (log (Subprocess [''ffmpeg'', ''-version'']) studio_disk)) = Inr ()"
    by code_simp
  then show ?thesis unfolding studio_after_mkdir_def by (rule run_pair)
qed

lemma studio_mkdtemp:
  "mkdtemp studio studio_after_mkdir = (Inr ''/tmp/tmpk3'', snd (mkdtemp studio studio_after_mkdir))"
proof -
  have "fst (mkdtemp studio studio_after_mkdir) = Inr ''/tmp/tmpk3''"
    by code_simp
  then show ?thesis by (rule run_pair)
qed

lemma inside_tmpk3:
  "inside ''/tmp/tmpk3'' ''/tmp/tmpk3''"
  "inside ''/tmp/tmpk3'' ''/tmp/tmpk3/remote.mp4''"
  "inside ''/tmp/tmpk3'' ''/tmp/tmpk3/remote_scaled.mp4''"
  by code_simp+

theorem temporary_directory_removed_witness:
  "files (snd (merge_local_with_remote studio ''intro.mp4'' ''https://youtu.be/XXXX''
                 ''out/merged.mp4'' studio_disk)) ''/tmp/tmpk3'' = None
   \<and> files (snd (merge_local_with_remote studio ''intro.mp4'' ''https://youtu.be/XXXX''
                 ''out/merged.mp4'' studio_disk)) ''/tmp/tmpk3/remote.mp4'' = None
   \<and> files (snd (merge_local_with_remote studio ''intro.mp4'' ''https://youtu.be/XXXX''
                 ''out/merged.mp4'' studio_disk)) ''/tmp/tmpk3/remote_scaled.mp4'' = None
   \<and> last (trace (snd (merge_local_with_remote studio ''intro.mp4'' ''https://youtu.be/XXXX''
                 ''out/merged.mp4'' studio_disk))) = Rmtree ''/tmp/tmpk3''"
proof -
  have 1: "fst (path_exists studio (resolve studio (expanduser studio ''intro.mp4'')) studio_disk)
             = Inr True"
    by (simp only: studio_paths studio_intro_exists)
  have 3: "mkdir_parents studio (parent (resolve studio (expanduser studio ''out/merged.mp4'')))
             (log (Subprocess [''ffmpeg'', ''-version'']) studio_disk)
             = (Inr (), studio_after_mkdir)"
    by (simp only: studio_paths studio_mkdir)
  from temporary_directory_removed
         [OF 1 studio_guard 3 studio_mkdtemp studio_known(1) studio_known(2),
          of "''https://youtu.be/XXXX''"]
       inside_tmpk3
  show ?thesis by (simp add: studio_paths)
qed

section \<open>Reconciling the dimensions\<close>

lemma has_audio_stream_trace:
  "has_audio_stream env p w = (r, w') \<Longrightarrow>
   trace w' = trace w @
     [Subprocess [''ffprobe'', ''-v'', ''error'', ''-select_streams'', ''a'',
                  ''-show_entries'', ''stream=index'',
                  ''-of'', ''default=noprint_wrappers=1:nokey=1'', p]]"
  by (auto simp add: has_audio_stream_def and_then_def reraise_def subprocess_run_def
      succeed_def log_def split: prod.splits completed.splits if_splits)

lemma concat_with_reencoding_trace:
  "concat_with_reencoding env lp rp op b w = (r, w') \<Longrightarrow>
   trace w' = trace w @ [Subprocess (concat_args lp rp op b)]"
  by (auto simp add: concat_with_reencoding_def and_then_def subprocess_run_def
      succeed_def log_def split: prod.splits completed.splits if_splits)

lemma scale_video_to_target_trace:
  "scale_video_to_target env src (wd, ht) dst w = (r, w') \<Longrightarrow>
   trace w' = trace w @
     [Subprocess [''ffmpeg'', ''-y'', ''-i'', src, ''-vf'', scale_vf wd ht,
                  ''-c:v'', ''libx264'', ''-preset'', ''fast'', ''-pix_fmt'', ''yuv420p'',
                  ''-c:a'', ''copy'', dst]]"
  by (auto simp add: scale_video_to_target_def and_then_def subprocess_run_def
      succeed_def log_def split: prod.splits completed.splits if_splits)

lemma audio_and_concat_trace:
  "\<exists>es b. trace (snd (and_then (has_audio_stream env lp) (\<lambda>la.
                       and_then (has_audio_stream env nr) (\<lambda>ra.
                       concat_with_reencoding env lp nr op (la \<and> ra))) w)) = trace w @ es
     \<and> es \<noteq> []
     \<and> prefix es
         [Subprocess [''ffprobe'', ''-v'', ''error'', ''-select_streams'', ''a'',
                      ''-show_entries'', ''stream=index'',
                      ''-of'', ''default=noprint_wrappers=1:nokey=1'', lp],
          Subprocess [''ffprobe'', ''-v'', ''error'', ''-select_streams'', ''a'',
                      ''-show_entries'', ''stream=index'',
                      ''-of'', ''default=noprint_wrappers=1:nokey=1'', nr],
          Subprocess (concat_args lp nr op b)]"
proof -
  obtain x w4 where a: "has_audio_stream env lp w = (x, w4)"
    by (cases "has_audio_stream env lp w") auto
  note ta = has_audio_stream_trace [OF a]
  show ?thesis
  proof (cases x)
    case (Inl e)
    with a ta show ?thesis by (simp add: and_then_def)
  next
    case (Inr la)
    obtain y w5 where b: "has_audio_stream env nr w4 = (y, w5)"
      by (cases "has_audio_stream env nr w4") auto
    note tb = has_audio_stream_trace [OF b]
    show ?thesis
    proof (cases y)
      case (Inl e)
      with a b ta tb \<open>x = Inr la\<close> show ?thesis by (simp add: and_then_def)
    next
      case (Inr ra)
      obtain z w6 where c: "concat_with_reencoding env lp nr op (la \<and> ra) w5 = (z, w6)"
        by (cases "concat_with_reencoding env lp nr op (la \<and> ra) w5") auto
      note tc = concat_with_reencoding_trace [OF c]
      have "and_then (has_audio_stream env lp) (\<lambda>la.
                       and_then (has_audio_stream env nr) (\<lambda>ra.
                       concat_with_reencoding env lp nr op (la \<and> ra))) w = (z, w6)"
        using a b c \<open>x = Inr la\<close> \<open>y = Inr ra\<close> by (simp add: and_then_def)
      then show ?thesis
        using ta tb tc by auto
    qed
  qed
qed

text \<open>
  C2. Take a run of the body of \<open>merge_local_with_remote\<close> in which the remote clip was
  acquired and both dimension probes returned, \<open>(lw, lh)\<close> for the local clip and
  \<open>(rw, rh)\<close> for the remote one. Among the effects that follow, the rescale subprocess
  (source \<open>remote.mp4\<close>, target \<open>lw:lh\<close>, destination \<open>remote_scaled.mp4\<close>) occurs if and
  only if the two pairs of integers differ; when they differ it is the very next effect.
  When they are equal nothing but the two audio probes and the concatenation runs, and
  their remote input is the acquired file \<open>remote.mp4\<close> itself.
\<close>

theorem rescale_iff_dimensions_differ:
  assumes prep: "prepare_remote_clip env remote_url (joinpath tmpdir ''remote.mp4'') w0
                   = (Inr (), w1)"
      and pl: "probe_video_dimensions env local_path w1 = (Inr (lw, lh), w2)"
      and pr: "probe_video_dimensions env (joinpath tmpdir ''remote.mp4'') w2
                 = (Inr (rw, rh), w3)"
  shows "\<exists>es. trace (snd (merge_in_tmpdir env local_path remote_url output_path tmpdir w0))
                = trace w3 @ es
     \<and> (Subprocess [''ffmpeg'', ''-y'', ''-i'', joinpath tmpdir ''remote.mp4'',
                     ''-vf'', scale_vf lw lh,
                     ''-c:v'', ''libx264'', ''-preset'', ''fast'', ''-pix_fmt'', ''yuv420p'',
                     ''-c:a'', ''copy'', joinpath tmpdir ''remote_scaled.mp4''] \<in> set es
          \<longleftrightarrow> (lw, lh) \<noteq> (rw, rh))
     \<and> ((lw, lh) \<noteq> (rw, rh) \<longrightarrow>
          take 1 es
            = [Subprocess [''ffmpeg'', ''-y'', ''-i'', joinpath tmpdir ''remote.mp4'',
                           ''-vf'', scale_vf lw lh,
                           ''-c:v'', ''libx264'', ''-preset'', ''fast'', ''-pix_fmt'', ''yuv420p'',
                           ''-c:a'', ''copy'', joinpath tmpdir ''remote_scaled.mp4'']])
     \<and> ((lw, lh) = (rw, rh) \<longrightarrow>
          (\<exists>b. prefix es
            [Subprocess [''ffprobe'', ''-v'', ''error'', ''-select_streams'', ''a'',
                         ''-show_entries'', ''stream=index'',
                         ''-of'', ''default=noprint_wrappers=1:nokey=1'', local_path],
             Subprocess [''ffprobe'', ''-v'', ''error'', ''-select_streams'', ''a'',
                         ''-show_entries'', ''stream=index'',
                         ''-of'', ''default=noprint_wrappers=1:nokey=1'',
                         joinpath tmpdir ''remote.mp4''],
             Subprocess (concat_args local_path (joinpath tmpdir ''remote.mp4'') output_path
                           b)]))"
proof -
  let ?wr = "joinpath tmpdir ''remote.mp4''"
  let ?sc = "joinpath tmpdir ''remote_scaled.mp4''"
  let ?S = "Subprocess [''ffmpeg'', ''-y'', ''-i'', ?wr, ''-vf'', scale_vf lw lh,
                     ''-c:v'', ''libx264'', ''-preset'', ''fast'', ''-pix_fmt'', ''yuv420p'',
                     ''-c:a'', ''copy'', ?sc]"
  let ?tail = "\<lambda>nr. and_then (has_audio_stream env local_path) (\<lambda>la.
                       and_then (has_audio_stream env nr) (\<lambda>ra.
                       concat_with_reencoding env local_path nr output_path (la \<and> ra)))"
  let ?m = "merge_in_tmpdir env local_path remote_url output_path tmpdir w0"
  show ?thesis
  proof (cases "(lw, lh) = (rw, rh)")
    case True
    have m: "?m = ?tail ?wr w3"
      using True by (simp add: merge_in_tmpdir_def Let_def and_then_def prep pl pr succeed_def)
    from audio_and_concat_trace [of env local_path ?wr output_path w3]
    obtain es b where es: "trace (snd (?tail ?wr w3)) = trace w3 @ es"
      "prefix es
         [Subprocess [''ffprobe'', ''-v'', ''error'', ''-select_streams'', ''a'',
                      ''-show_entries'', ''stream=index'',
                      ''-of'', ''default=noprint_wrappers=1:nokey=1'', local_path],
          Subprocess [''ffprobe'', ''-v'', ''error'', ''-select_streams'', ''a'',
                      ''-show_entries'', ''stream=index'',
                      ''-of'', ''default=noprint_wrappers=1:nokey=1'', ?wr],
          Subprocess (concat_args local_path ?wr output_path b)]"
      by blast
    from es(2) have "set es \<subseteq> set
         [Subprocess [''ffprobe'', ''-v'', ''error'', ''-select_streams'', ''a'',
                      ''-show_entries'', ''stream=index'',
                      ''-of'', ''default=noprint_wrappers=1:nokey=1'', local_path],
          Subprocess [''ffprobe'', ''-v'', ''error'', ''-select_streams'', ''a'',
                      ''-show_entries'', ''stream=index'',
                      ''-of'', ''default=noprint_wrappers=1:nokey=1'', ?wr],
          Subprocess (concat_args local_path ?wr output_path b)]"
      by (rule set_mono_prefix)
    then have "?S \<notin> set es"
      by (auto simp add: concat_args_def)
    with es True m show ?thesis by auto
  next
    case False
    obtain x w4 where sc: "scale_video_to_target env ?wr (lw, lh) ?sc w3 = (x, w4)"
      by (cases "scale_video_to_target env ?wr (lw, lh) ?sc w3") auto
    note ts = scale_video_to_target_trace [OF sc]
    show ?thesis
    proof (cases x)
      case (Inl e)
      have "?m = (Inl e, w4)"
        using False Inl sc
        by (simp add: merge_in_tmpdir_def Let_def and_then_def prep pl pr)
      with ts False show ?thesis by auto
    next
      case (Inr u)
      have m: "?m = ?tail ?sc w4"
        using False Inr sc
        by (simp add: merge_in_tmpdir_def Let_def and_then_def prep pl pr succeed_def)
      from audio_and_concat_trace [of env local_path ?sc output_path w4]
      obtain es where "trace (snd (?tail ?sc w4)) = trace w4 @ es" by blast
      with ts m False show ?thesis by auto
    qed
  qed
qed

lemma probe_lines_hd: "probe_lines ''1920\<newline>1080\<newline>'' = [''1920'', ''1080'']"
  by code_simp

lemma probe_lines_sd: "probe_lines ''1280\<newline>720\<newline>'' = [''1280'', ''720'']"
  by code_simp

lemma py_int_1920: "py_int ''1920'' = Some 1920"
  by code_simp

lemma py_int_1080: "py_int ''1080'' = Some 1080"
  by code_simp

lemma studio_probe_intro:
  "fst (probe_video_dimensions studio ''/work/intro.mp4'' w) = Inr (1280, 720)"
  by (simp add: probe_video_dimensions_def and_then_def reraise_def subprocess_run_def
      succeed_def studio_def studio_popen_def probe_lines_sd py_int_1280 py_int_720)

lemma studio_probe_remote:
  "fst (probe_video_dimensions studio ''/tmp/tmpk3/remote.mp4'' w) = Inr (1920, 1080)"
  by (simp add: probe_video_dimensions_def and_then_def reraise_def subprocess_run_def
      succeed_def studio_def studio_popen_def probe_lines_hd py_int_1920 py_int_1080)

lemma studio_prepare_outro:
  "fst (prepare_remote_clip studio ''outro.mp4'' ''/tmp/tmpk3/remote.mp4'' studio_tmp_made)
     = Inr ()"
  by code_simp

lemma joinpath_tmpk3:
  "joinpath ''/tmp/tmpk3'' ''remote.mp4'' = ''/tmp/tmpk3/remote.mp4''"
  "joinpath ''/tmp/tmpk3'' ''remote_scaled.mp4'' = ''/tmp/tmpk3/remote_scaled.mp4''"
  by (simp_all add: joinpath_def)

theorem rescale_iff_dimensions_differ_witness:
  "\<exists>es. trace (snd (merge_in_tmpdir studio ''/work/intro.mp4'' ''outro.mp4''
                      ''/work/out/merged.mp4'' ''/tmp/tmpk3'' studio_tmp_made))
           = trace studio_probed_both @ es
        \<and> take 1 es
            = [Subprocess [''ffmpeg'', ''-y'', ''-i'', ''/tmp/tmpk3/remote.mp4'',
                           ''-vf'', scale_vf 1280 720,
                           ''-c:v'', ''libx264'', ''-preset'', ''fast'', ''-pix_fmt'', ''yuv420p'',
                           ''-c:a'', ''copy'', ''/tmp/tmpk3/remote_scaled.mp4'']]"
proof -
  have 1: "prepare_remote_clip studio ''outro.mp4'' (joinpath ''/tmp/tmpk3'' ''remote.mp4'')
             studio_tmp_made = (Inr (), studio_prepared)"
    unfolding studio_prepared_def joinpath_tmpk3 using studio_prepare_outro by (rule run_pair)
  have 2: "probe_video_dimensions studio ''/work/intro.mp4'' studio_prepared
             = (Inr (1280, 720), studio_probed_local)"
    unfolding studio_probed_local_def using studio_probe_intro by (rule run_pair)
  have 3: "probe_video_dimensions studio (joinpath ''/tmp/tmpk3'' ''remote.mp4'')
             studio_probed_local = (Inr (1920, 1080), studio_probed_both)"
    unfolding studio_probed_both_def joinpath_tmpk3 using studio_probe_remote by (rule run_pair)
  from rescale_iff_dimensions_differ [OF 1 2 3, of "''/work/out/merged.mp4''"]
  show ?thesis by (auto simp add: joinpath_tmpk3)
qed

section \<open>Choosing the audio mode\<close>

text \<open>
  C1. Take a run of the body of \<open>merge_local_with_remote\<close> in which the remote clip was
  acquired, both dimension probes returned, the remote clip was normalised (left as it
  is when the sizes agree, rescaled successfully when they differ), and the two audio
  probes returned \<open>local_has_audio\<close> for the local clip and \<open>remote_has_audio\<close> for the
  normalised remote clip. Then what remains of the run is the concatenation step called
  with the conjunction of the two: one \<open>ffmpeg\<close> call whose filter graph is the
  video-and-audio graph, with the audio output mapped and encoded, when both clips have
  audio, and the video-only graph without any audio mapping otherwise.
\<close>

theorem concat_audio_mode:
  assumes prep: "prepare_remote_clip env remote_url (joinpath tmpdir ''remote.mp4'') w0
                   = (Inr (), w1)"
      and pl: "probe_video_dimensions env local_path w1 = (Inr local_size, w2)"
      and pr: "probe_video_dimensions env (joinpath tmpdir ''remote.mp4'') w2
                 = (Inr remote_size, w3)"
      and norm: "(local_size = remote_size \<and> normalized_remote = joinpath tmpdir ''remote.mp4''
                    \<and> w4 = w3)
                 \<or> (local_size \<noteq> remote_size
                    \<and> normalized_remote = joinpath tmpdir ''remote_scaled.mp4''
                    \<and> scale_video_to_target env (joinpath tmpdir ''remote.mp4'') local_size
                          normalized_remote w3 = (Inr (), w4))"
      and al: "has_audio_stream env local_path w4 = (Inr local_has_audio, w5)"
      and ar: "has_audio_stream env normalized_remote w5 = (Inr remote_has_audio, w6)"
  shows "merge_in_tmpdir env local_path remote_url output_path tmpdir w0
           = concat_with_reencoding env local_path normalized_remote output_path
               (local_has_audio \<and> remote_has_audio) w6
     \<and> trace (snd (merge_in_tmpdir env local_path remote_url output_path tmpdir w0))
         = trace w6 @
           [Subprocess (concat_args local_path normalized_remote output_path
                          (local_has_audio \<and> remote_has_audio))]
     \<and> concat_args local_path normalized_remote output_path
           (local_has_audio \<and> remote_has_audio)
         = [''ffmpeg'', ''-y'', ''-i'', local_path, ''-i'', normalized_remote,
            ''-filter_complex'',
            (if local_has_audio \<and> remote_has_audio
             then ''[0:v][0:a][1:v][1:a]concat=n=2:v=1:a=1[v][a]''
             else ''[0:v][1:v]concat=n=2:v=1:a=0[v]''),
            ''-map'', ''[v]'', ''-c:v'', ''libx264'', ''-preset'', ''fast'',
            ''-pix_fmt'', ''yuv420p'']
           @ (if local_has_audio \<and> remote_has_audio
              then [''-map'', ''[a]'', ''-c:a'', ''aac'', ''-b:a'', ''192k'', ''-ar'', ''44100'']
              else [])
           @ [output_path]"
proof -
  let ?m = "merge_in_tmpdir env local_path remote_url output_path tmpdir w0"
  let ?c = "concat_with_reencoding env local_path normalized_remote output_path
               (local_has_audio \<and> remote_has_audio) w6"
  have m: "?m = ?c"
    using norm
  proof (elim disjE conjE)
    assume "local_size = remote_size" "normalized_remote = joinpath tmpdir ''remote.mp4''"
      "w4 = w3"
    then show ?thesis
      using al ar
      by (simp add: merge_in_tmpdir_def Let_def and_then_def prep pl pr succeed_def)
  next
    assume "local_size \<noteq> remote_size"
      "normalized_remote = joinpath tmpdir ''remote_scaled.mp4''"
      "scale_video_to_target env (joinpath tmpdir ''remote.mp4'') local_size
         normalized_remote w3 = (Inr (), w4)"
    then show ?thesis
      using al ar
      by (simp add: merge_in_tmpdir_def Let_def and_then_def prep pl pr succeed_def)
  qed
  obtain z w7 where c: "?c = (z, w7)" by (cases ?c) auto
  from concat_with_reencoding_trace [OF c] m c
  have t: "trace (snd ?m) = trace w6 @
           [Subprocess (concat_args local_path normalized_remote output_path
                          (local_has_audio \<and> remote_has_audio))]"
    by simp
  have a: "concat_args local_path normalized_remote output_path
           (local_has_audio \<and> remote_has_audio)
         = [''ffmpeg'', ''-y'', ''-i'', local_path, ''-i'', normalized_remote,
            ''-filter_complex'',
            (if local_has_audio \<and> remote_has_audio
             then ''[0:v][0:a][1:v][1:a]concat=n=2:v=1:a=1[v][a]''
             else ''[0:v][1:v]concat=n=2:v=1:a=0[v]''),
            ''-map'', ''[v]'', ''-c:v'', ''libx264'', ''-preset'', ''fast'',
            ''-pix_fmt'', ''yuv420p'']
           @ (if local_has_audio \<and> remote_has_audio
              then [''-map'', ''[a]'', ''-c:a'', ''aac'', ''-b:a'', ''192k'', ''-ar'', ''44100'']
              else [])
           @ [output_path]"
    by (simp add: concat_args_def concat_filter_complex_def)
  from m t a show ?thesis by blast
qed

lemma studio_scale:
  "fst (scale_video_to_target studio src (wd, ht) dst w) = Inr ()"
  by (simp add: scale_video_to_target_def and_then_def subprocess_run_def succeed_def
      studio_def studio_popen_def)

lemma studio_has_audio:
  "fst (has_audio_stream studio p w) = Inr True"
  by (simp add: has_audio_stream_def and_then_def reraise_def subprocess_run_def succeed_def
      studio_def studio_popen_def strip_def is_space_def)

theorem concat_audio_mode_witness:
  "trace (snd (merge_in_tmpdir studio ''/work/intro.mp4'' ''outro.mp4''
                 ''/work/out/merged.mp4'' ''/tmp/tmpk3'' studio_tmp_made))
     = trace studio_heard_both @
       [Subprocess
          [''ffmpeg'', ''-y'', ''-i'', ''/work/intro.mp4'', ''-i'', ''/tmp/tmpk3/remote_scaled.mp4'',
           ''-filter_complex'', ''[0:v][0:a][1:v][1:a]concat=n=2:v=1:a=1[v][a]'',
           ''-map'', ''[v]'', ''-c:v'', ''libx264'', ''-preset'', ''fast'',
           ''-pix_fmt'', ''yuv420p'',
           ''-map'', ''[a]'', ''-c:a'', ''aac'', ''-b:a'', ''192k'', ''-ar'', ''44100'',
           ''/work/out/merged.mp4'']]"
proof -
  have 1: "prepare_remote_clip studio ''outro.mp4'' (joinpath ''/tmp/tmpk3'' ''remote.mp4'')
             studio_tmp_made = (Inr (), studio_prepared)"
    unfolding studio_prepared_def joinpath_tmpk3 using studio_prepare_outro by (rule run_pair)
  have 2: "probe_video_dimensions studio ''/work/intro.mp4'' studio_prepared
             = (Inr (1280, 720), studio_probed_local)"
    unfolding studio_probed_local_def using studio_probe_intro by (rule run_pair)
  have 3: "probe_video_dimensions studio (joinpath ''/tmp/tmpk3'' ''remote.mp4'')
             studio_probed_local = (Inr (1920, 1080), studio_probed_both)"
    unfolding studio_probed_both_def joinpath_tmpk3 using studio_probe_remote by (rule run_pair)
  have s: "scale_video_to_target studio ''/tmp/tmpk3/remote.mp4'' (1280, 720)
             ''/tmp/tmpk3/remote_scaled.mp4'' studio_probed_both = (Inr (), studio_scaled)"
    unfolding studio_scaled_def using studio_scale by (rule run_pair)
  have 4: "((1280, 720) = ((1920, 1080) :: int \<times> int)
              \<and> ''/tmp/tmpk3/remote_scaled.mp4'' = joinpath ''/tmp/tmpk3'' ''remote.mp4''
              \<and> studio_scaled = studio_probed_both)
           \<or> ((1280, 720) \<noteq> ((1920, 1080) :: int \<times> int)
              \<and> ''/tmp/tmpk3/remote_scaled.mp4'' = joinpath ''/tmp/tmpk3'' ''remote_scaled.mp4''
              \<and> scale_video_to_target studio (joinpath ''/tmp/tmpk3'' ''remote.mp4'') (1280, 720)
                    ''/tmp/tmpk3/remote_scaled.mp4'' studio_probed_both = (Inr (), studio_scaled))"
    using s by (simp add: joinpath_tmpk3)
  have 5: "has_audio_stream studio ''/work/intro.mp4'' studio_scaled
             = (Inr True, studio_heard_local)"
    unfolding studio_heard_local_def using studio_has_audio by (rule run_pair)
  have 6: "has_audio_stream studio ''/tmp/tmpk3/remote_scaled.mp4'' studio_heard_local
             = (Inr True, studio_heard_both)"
    unfolding studio_heard_both_def using studio_has_audio by (rule run_pair)
  note r = concat_audio_mode [OF 1 2 3 4 5 6, of "''/work/out/merged.mp4''"]
  from r have t: "trace (snd (merge_in_tmpdir studio ''/work/intro.mp4'' ''outro.mp4''
                 ''/work/out/merged.mp4'' ''/tmp/tmpk3'' studio_tmp_made))
     = trace studio_heard_both @
       [Subprocess (concat_args ''/work/intro.mp4'' ''/tmp/tmpk3/remote_scaled.mp4''
                      ''/work/out/merged.mp4'' (True \<and> True))]"
    by blast
  from r have a: "concat_args ''/work/intro.mp4'' ''/tmp/tmpk3/remote_scaled.mp4''
                      ''/work/out/merged.mp4'' (True \<and> True)
         = [''ffmpeg'', ''-y'', ''-i'', ''/work/intro.mp4'', ''-i'', ''/tmp/tmpk3/remote_scaled.mp4'',
            ''-filter_complex'',
            (if True \<and> True
             then ''[0:v][0:a][1:v][1:a]concat=n=2:v=1:a=1[v][a]''
             else ''[0:v][1:v]concat=n=2:v=1:a=0[v]''),
            ''-map'', ''[v]'', ''-c:v'', ''libx264'', ''-preset'', ''fast'',
            ''-pix_fmt'', ''yuv420p'']
           @ (if True \<and> True
              then [''-map'', ''[a]'', ''-c:a'', ''aac'', ''-b:a'', ''192k'', ''-ar'', ''44100'']
              else [])
           @ [''/work/out/merged.mp4'']"
    by blast
  show ?thesis unfolding t a by simp
qed

section \<open>Acquiring the remote clip\<close>

lemma mkdir_parents_trace:
  "mkdir_parents env p w = (r, w') \<Longrightarrow> trace w' = trace w @ [Mkdir p]"
  by (auto simp add: mkdir_parents_def Let_def log_def split: if_splits)

lemma replace_trace:
  "replace env src dst w = (r, w') \<Longrightarrow> trace w' = trace w @ [Replace src dst]"
  by (auto simp add: replace_def log_def split: option.splits node.splits if_splits)

lemma copy2_trace:
  "copy2 env src dst w = (r, w') \<Longrightarrow> trace w' = trace w @ [Copy2 src dst]"
  by (auto simp add: copy2_def Let_def log_def split: option.splits node.splits if_splits)

lemma download_remote_clip_trace:
  "download_remote_clip env u dst w = (r, w') \<Longrightarrow>
   trace w' = trace w @ [Subprocess [''ffmpeg'', ''-y'', ''-i'', u, ''-c'', ''copy'', dst]]"
  by (auto simp add: download_remote_clip_def and_then_def subprocess_run_def
      succeed_def log_def split: prod.splits completed.splits if_splits)

lemma download_with_ytdlp_trace:
  assumes "download_with_ytdlp env u dst w = (r, w')"
  shows "if ytdlp_importable env
         then \<exists>es ext. trace w' = trace w @ [Mkdir (parent dst)] @ es
                \<and> prefix es [YtDlp u (joinpath (parent dst) ''remote.%(ext)s''),
                              Replace (joinpath (parent dst) (''remote.'' @ ext)) dst]
         else trace w' = trace w \<and> (\<exists>m. r = Inl (RuntimeError m))"
proof (cases "ytdlp_importable env")
  case False
  with assms show ?thesis by (auto simp add: download_with_ytdlp_def throw_def)
next
  case True
  obtain x w1 where mk: "mkdir_parents env (parent dst) w = (x, w1)"
    by (cases "mkdir_parents env (parent dst) w") auto
  note t1 = mkdir_parents_trace [OF mk]
  show ?thesis
  proof (cases x)
    case (Inl e)
    with assms True mk have "w' = w1"
      by (auto simp add: download_with_ytdlp_def and_then_def)
    with t1 True show ?thesis by auto
  next
    case (Inr u1)
    let ?tpl = "joinpath (parent dst) ''remote.%(ext)s''"
    obtain y ws where yt: "ytdlp_extract env u ?tpl (files w1) = (y, ws)"
      by (cases "ytdlp_extract env u ?tpl (files w1)") auto
    let ?w2 = "log (YtDlp u ?tpl) (w1\<lparr>files := write_files env ws (files w1)\<rparr>)"
    have t2: "trace ?w2 = trace w @ [Mkdir (parent dst)] @ [YtDlp u ?tpl]"
      using t1 by (simp add: log_def)
    show ?thesis
    proof (cases y)
      case (DownloadRaised msg)
      with assms True mk Inr yt have "w' = ?w2"
        by (simp add: download_with_ytdlp_def and_then_def Let_def)
      with t2 True show ?thesis by auto
    next
      case (Downloaded ext)
      let ?d = "joinpath (parent dst) (''remote.'' @ ext)"
      obtain f w3 where pe: "path_exists env ?d ?w2 = (f, w3)"
        by (cases "path_exists env ?d ?w2") auto
      then have w3: "w3 = ?w2" by (auto simp add: path_exists_def split: if_splits)
      show ?thesis
      proof (cases "f = Inr True")
        case False
        with assms True mk Inr yt Downloaded pe w3 have "w' = ?w2"
          by (cases f) (auto simp add: download_with_ytdlp_def and_then_def Let_def throw_def)
        with t2 True show ?thesis by auto
      next
        case found: True
        with assms True mk Inr yt Downloaded pe w3 have "replace env ?d dst ?w2 = (r, w')"
          by (simp add: download_with_ytdlp_def and_then_def Let_def)
        from replace_trace [OF this] t2
        have "trace w' = trace w @ [Mkdir (parent dst)] @ [YtDlp u ?tpl, Replace ?d dst]"
          by simp
        with True show ?thesis by auto
      qed
    qed
  qed
qed

lemma prepare_remote_clip_strategy:
  assumes known: "\<not> unknown_home env remote_url"
      and ex: "fst (path_exists env (expanduser env remote_url) w) = Inr found"
      and prep: "prepare_remote_clip env remote_url dst w = (r, w')"
  shows "if found then trace w' = trace w @ [Copy2 (expanduser env remote_url) dst]
         else if \<not> is_streaming_url remote_url
         then trace w' = trace w @ [Subprocess [''ffmpeg'', ''-y'', ''-i'', remote_url,
                                               ''-c'', ''copy'', dst]]
         else if ytdlp_importable env
         then \<exists>es ext. trace w' = trace w @ [Mkdir (parent dst)] @ es
                \<and> prefix es [YtDlp remote_url (joinpath (parent dst) ''remote.%(ext)s''),
                              Replace (joinpath (parent dst) (''remote.'' @ ext)) dst]
         else trace w' = trace w \<and> (\<exists>m. r = Inl (RuntimeError m))"
proof -
  note e = path_exists_fst [OF ex]
  show ?thesis
  proof (cases found)
    case True
    with prep have "copy2 env (expanduser env remote_url) dst w = (r, w')"
      by (simp add: prepare_remote_clip_def and_then_def expand_user_known [OF known] e)
    from copy2_trace [OF this] True show ?thesis by simp
  next
    case False
    show ?thesis
    proof (cases "is_streaming_url remote_url")
      case s: True
      with prep False have "download_with_ytdlp env remote_url dst w = (r, w')"
        by (simp add: prepare_remote_clip_def and_then_def expand_user_known [OF known] e)
      from download_with_ytdlp_trace [OF this] False s show ?thesis by simp
    next
      case s: False
      with prep False have "download_remote_clip env remote_url dst w = (r, w')"
        by (simp add: prepare_remote_clip_def and_then_def expand_user_known [OF known] e)
      from download_remote_clip_trace [OF this] False s show ?thesis by simp
    qed
  qed
qed

lemma prepare_failure_aborts_merge:
  assumes "fst (prepare_remote_clip env remote_url (joinpath tmpdir ''remote.mp4'') w) = Inl e"
  shows "fst (merge_in_tmpdir env local_path remote_url output_path tmpdir w) = Inl e"
  using assms unfolding merge_in_tmpdir_def Let_def
  by (simp add: and_then_by_parts [of "prepare_remote_clip env u d" for u d])

lemma offline_same:
  "path_exists offline = path_exists studio"
  "mkdir_parents offline = mkdir_parents studio"
  "mkdtemp offline = mkdtemp studio"
  "resolve offline = resolve studio"
  "expanduser offline = expanduser studio"
  "unknown_home offline = unknown_home studio"
  by (simp_all add: offline_def studio_def fun_eq_iff path_exists_def mkdir_parents_def
      mkdtemp_def Let_def)

lemma offline_guard:
  "ensure_ffmpeg_available offline w = (Inr (), log (Subprocess [''ffmpeg'', ''-version'']) w)"
  by (simp add: ensure_ffmpeg_available_def reraise_def and_then_def subprocess_run_def
      succeed_def offline_def offline_popen_def)

lemma offline_download:
  "fst (download_remote_clip offline u dst w)
     = Inl (CalledProcessError [''ffmpeg'', ''-y'', ''-i'', u, ''-c'', ''copy'', dst] 1)"
  by (simp add: download_remote_clip_def and_then_def subprocess_run_def offline_def
      offline_popen_def)

lemma offline_prepare:
  "fst (prepare_remote_clip offline ''https://example.org/a.mp4'' ''/tmp/tmpk3/remote.mp4''
          studio_tmp_made)
     = Inl (CalledProcessError
              [''ffmpeg'', ''-y'', ''-i'', ''https://example.org/a.mp4'', ''-c'', ''copy'',
               ''/tmp/tmpk3/remote.mp4''] 1)"
proof -
  have "fst (path_exists offline (expanduser offline ''https://example.org/a.mp4'')
               studio_tmp_made) = Inr False"
    by code_simp
  then have a: "path_exists offline (expanduser offline ''https://example.org/a.mp4'')
                  studio_tmp_made = (Inr False, studio_tmp_made)"
    by (rule path_exists_fst)
  have k: "\<not> unknown_home offline ''https://example.org/a.mp4''"
    by (simp add: offline_def studio_unknown_home_def)
  have b: "\<not> is_streaming_url ''https://example.org/a.mp4''"
    by code_simp
  have "prepare_remote_clip offline ''https://example.org/a.mp4'' ''/tmp/tmpk3/remote.mp4''
          studio_tmp_made
        = download_remote_clip offline ''https://example.org/a.mp4'' ''/tmp/tmpk3/remote.mp4''
            studio_tmp_made"
    unfolding prepare_remote_clip_def by (simp add: and_then_def expand_user_known [OF k] a b)
  then show ?thesis by (simp only: offline_download)
qed

lemma overlong_url_facts:
  "\<not> unknown_home studio overlong_url"
  "expanduser studio overlong_url = overlong_url"
  "stat_refuses studio overlong_url"
  by (simp_all add: studio_def studio_unknown_home_def studio_stat_refuses_def overlong_url_def)

lemma overlong_url_prepare:
  "prepare_remote_clip studio overlong_url dst w = (Inl (OSError ''File name too long''), w)"
  by (simp add: prepare_remote_clip_def and_then_def expand_user_known overlong_url_facts
      path_exists_def)

text \<open>
  C3. The claim does not hold of the code on every input. \<open>_prepare_remote_clip\<close> asks
  \<open>Path(remote_url).expanduser().exists()\<close> before it chooses a strategy, and \<open>exists()\<close>
  raises \<open>OSError\<close> for a name that \<open>stat\<close> refuses as too long. For a URL of 4220
  characters, which is no local path, the acquisition raises this \<open>OSError\<close> and has no
  effect at all: no copy, no downloader, no stream copy by the media tool, although the
  function is documented to fetch remote content by one of the three. The merge that
  reached the acquisition ends with the same exception.
\<close>

theorem acquisition_without_strategy:
  "length overlong_url = 4220
   \<and> prepare_remote_clip studio overlong_url ''/tmp/tmpk3/remote.mp4'' studio_tmp_made
       = (Inl (OSError ''File name too long''), studio_tmp_made)
   \<and> fst (merge_local_with_remote studio ''intro.mp4'' overlong_url ''out/merged.mp4''
            studio_disk) = Inl (OSError ''File name too long'')"
proof -
  have 0: "length overlong_url = 4220" by (simp add: overlong_url_def)
  have s1: "fst (path_exists studio (resolve studio (expanduser studio ''intro.mp4'')) studio_disk)
             = Inr True"
    by (simp only: studio_paths studio_intro_exists)
  have s3: "mkdir_parents studio (parent (resolve studio (expanduser studio ''out/merged.mp4'')))
             (log (Subprocess [''ffmpeg'', ''-version'']) studio_disk)
             = (Inr (), studio_after_mkdir)"
    by (simp only: studio_paths studio_mkdir)
  have "fst (merge_in_tmpdir studio (resolve studio (expanduser studio ''intro.mp4''))
               overlong_url (resolve studio (expanduser studio ''out/merged.mp4''))
               ''/tmp/tmpk3'' (snd (mkdtemp studio studio_after_mkdir)))
          = Inl (OSError ''File name too long'')"
    by (rule prepare_failure_aborts_merge) (simp add: overlong_url_prepare)
  then have m: "fst (merge_local_with_remote studio ''intro.mp4'' overlong_url ''out/merged.mp4''
            studio_disk) = Inl (OSError ''File name too long'')"
    unfolding merge_result_from_body
                [OF s1 studio_guard s3 studio_mkdtemp studio_known(1) studio_known(2)]
    by simp
  from 0 overlong_url_prepare m show ?thesis by simp
qed

section \<open>The output path and its parent directory\<close>

lemma steady_succeed: "steady k (succeed x)"
  by (simp add: steady_def succeed_def)

lemma steady_throw: "steady k (throw e)"
  by (simp add: steady_def throw_def)

lemma steady_and_then:
  assumes "steady k m" and "\<And>x. steady k (f x)"
  shows "steady k (and_then m f)"
  unfolding steady_def
proof (intro allI impI)
  fix w r w'
  assume a: "and_then m f w = (r, w')"
  obtain x w1 where m: "m w = (x, w1)" by (cases "m w") auto
  with assms(1) have 1: "prefix (trace w) (trace w1)"
    "files w k = Some Dir \<longrightarrow> files w1 k = Some Dir"
    by (auto simp add: steady_def)
  show "prefix (trace w) (trace w') \<and> (files w k = Some Dir \<longrightarrow> files w' k = Some Dir)"
  proof (cases x)
    case (Inl e)
    with a m have "w' = w1" by (simp add: and_then_def)
    with 1 show ?thesis by simp
  next
    case (Inr y)
    with a m have "f y w1 = (r, w')" by (simp add: and_then_def)
    with assms(2) [of y] have "prefix (trace w1) (trace w')"
      "files w1 k = Some Dir \<longrightarrow> files w' k = Some Dir"
      by (auto simp add: steady_def)
    with 1 show ?thesis by (auto intro: prefix_order.trans)
  qed
qed

lemma steady_reraise: "steady k m \<Longrightarrow> steady k (reraise m h)"
  unfolding steady_def reraise_def
  by (auto split: prod.splits sum.splits)

lemma write_files_keeps_dir: "f k = Some Dir \<Longrightarrow> write_files env ws f k = Some Dir"
proof (induction ws arbitrary: f)
  case Nil
  then show ?case by simp
next
  case (Cons pc ws)
  obtain p c where pc: "pc = (p, c)" by (cases pc) auto
  show ?case
  proof (cases "f (resolve env p) = Some Dir")
    case True
    with Cons pc show ?thesis by simp
  next
    case False
    with Cons.prems have "resolve env p \<noteq> k" by auto
    with Cons.prems have "(f(resolve env p \<mapsto> File c)) k = Some Dir" by simp
    then have "write_files env ws (f(resolve env p \<mapsto> File c)) k = Some Dir"
      by (rule Cons.IH)
    with False pc show ?thesis by simp
  qed
qed

lemma steady_subprocess_run: "steady k (subprocess_run env argv)"
  by (auto simp add: steady_def subprocess_run_def log_def write_files_keeps_dir
      split: prod.splits completed.splits if_splits)

lemma steady_path_exists: "steady k (path_exists env p)"
  by (auto simp add: steady_def path_exists_def split: if_splits)

lemma steady_expand_user: "steady k (expand_user env p)"
  by (simp add: expand_user_def steady_throw steady_succeed)

lemma steady_mkdir_parents: "steady k (mkdir_parents env p)"
  by (auto simp add: steady_def mkdir_parents_def Let_def log_def split: if_splits)

lemma steady_copy2: "steady k (copy2 env src dst)"
  by (auto simp add: steady_def copy2_def Let_def log_def
      split: option.splits node.splits if_splits)

lemma steady_replace: "steady k (replace env src dst)"
  by (auto simp add: steady_def replace_def log_def
      split: option.splits node.splits if_splits)

lemma steady_ytdlp_step:
  "steady k (\<lambda>w. case ytdlp_extract env u tpl (files w) of
                  (DownloadRaised msg, ws) \<Rightarrow>
                    (Inl (DownloadError msg),
                     log (YtDlp u tpl) (w\<lparr>files := write_files env ws (files w)\<rparr>))
                | (Downloaded ext, ws) \<Rightarrow>
                    (Inr (g ext),
                     log (YtDlp u tpl) (w\<lparr>files := write_files env ws (files w)\<rparr>)))"
  by (auto simp add: steady_def log_def write_files_keeps_dir
      split: prod.splits ytdlp_result.splits)

lemma steady_download_with_ytdlp: "steady k (download_with_ytdlp env u dst)"
  unfolding download_with_ytdlp_def Let_def
  by (auto intro!: steady_and_then steady_throw steady_mkdir_parents steady_ytdlp_step
      steady_path_exists steady_replace)

lemma steady_download_remote_clip: "steady k (download_remote_clip env u dst)"
  unfolding download_remote_clip_def
  by (intro steady_and_then steady_subprocess_run steady_succeed)

lemma steady_prepare_remote_clip: "steady k (prepare_remote_clip env u dst)"
  unfolding prepare_remote_clip_def
  by (auto intro!: steady_and_then steady_expand_user steady_path_exists steady_copy2
      steady_download_with_ytdlp steady_download_remote_clip)

lemma steady_probe_video_dimensions: "steady k (probe_video_dimensions env p)"
  unfolding probe_video_dimensions_def
  by (auto intro!: steady_and_then steady_reraise steady_subprocess_run steady_succeed
      steady_throw split: list.splits option.splits)

lemma steady_has_audio_stream: "steady k (has_audio_stream env p)"
  unfolding has_audio_stream_def
  by (intro steady_and_then steady_reraise steady_subprocess_run steady_succeed)

lemma steady_scale_video_to_target: "steady k (scale_video_to_target env s t d)"
  unfolding scale_video_to_target_def
  by (auto intro!: steady_and_then steady_subprocess_run steady_succeed split: prod.splits)

lemma steady_concat_with_reencoding: "steady k (concat_with_reencoding env l r o' b)"
  unfolding concat_with_reencoding_def
  by (intro steady_and_then steady_subprocess_run steady_succeed)

lemma steady_merge_in_tmpdir: "steady k (merge_in_tmpdir env lp u op t)"
  unfolding merge_in_tmpdir_def Let_def
  by (auto intro!: steady_and_then steady_prepare_remote_clip steady_probe_video_dimensions
      steady_scale_video_to_target steady_succeed steady_has_audio_stream
      steady_concat_with_reencoding)

lemma self_in_ancestors: "k \<in> set (ancestors_or_self k)"
  by (simp add: ancestors_or_self_def in_set_prefixes)

lemma ensure_ffmpeg_available_trace:
  "ensure_ffmpeg_available env w = (r, w1) \<Longrightarrow>
   trace w1 = trace w @ [Subprocess [''ffmpeg'', ''-version'']]"
  by (auto simp add: ensure_ffmpeg_available_def reraise_def and_then_def subprocess_run_def
      succeed_def log_def split: prod.splits completed.splits if_splits sum.splits)

lemma mkdir_parents_done:
  assumes "mkdir_parents env p w = (Inr (), w2)"
  shows "\<forall>q\<in>set (ancestors_or_self (resolve env p)). files w2 q \<noteq> None"
    and "files w2 (resolve env p) = Some Dir"
proof -
  let ?chain = "ancestors_or_self (resolve env p)"
  from assms have nf: "\<not> list_ex (\<lambda>q. case files w q of Some (File c) \<Rightarrow> True | _ \<Rightarrow> False) ?chain"
    and f: "files w2 = (\<lambda>k. if k \<in> set ?chain \<and> files w k = None then Some Dir else files w k)"
    by (auto simp add: mkdir_parents_def Let_def log_def split: if_splits)
  from f show "\<forall>q\<in>set ?chain. files w2 q \<noteq> None" by auto
  from nf self_in_ancestors [of "resolve env p"]
  have "\<not> (case files w (resolve env p) of Some (File c) \<Rightarrow> True | _ \<Rightarrow> False)"
    by (auto simp add: list_ex_iff)
  then have "files w (resolve env p) = None \<or> files w (resolve env p) = Some Dir"
    by (auto split: option.splits node.splits)
  with f self_in_ancestors [of "resolve env p"] show "files w2 (resolve env p) = Some Dir"
    by auto
qed

lemma with_temporary_directory_steady:
  assumes body: "\<And>t. steady k (body t)"
      and chain: "\<forall>q\<in>set (ancestors_or_self k). files w q \<noteq> None"
      and dir: "files w k = Some Dir"
      and run: "with_temporary_directory env body w = (r, w')"
  shows "prefix (trace w) (trace w') \<and> files w' k = Some Dir"
proof -
  let ?t = "tempname env (files w)"
  show ?thesis
  proof (cases "files w (resolve env ?t) = None")
    case False
    with run have "w' = log (Mkdtemp ?t) w"
      by (auto simp add: with_temporary_directory_def and_then_def mkdtemp_def Let_def)
    with dir show ?thesis by (simp add: log_def)
  next
    case True
    let ?w0 = "log (Mkdtemp ?t) (w\<lparr>files := (files w)(resolve env ?t \<mapsto> Dir)\<rparr>)"
    from True have mk: "mkdtemp env w = (Inr ?t, ?w0)"
      by (simp add: mkdtemp_def Let_def)
    from True chain have ni: "\<not> inside (resolve env ?t) k"
      by (auto simp add: inside_def)
    obtain x w1 where b: "body ?t ?w0 = (x, w1)" by (cases "body ?t ?w0") auto
    have d0: "files ?w0 k = Some Dir" using dir by (simp add: log_def)
    from body [of ?t] b d0 have 1: "prefix (trace ?w0) (trace w1)" "files w1 k = Some Dir"
      by (auto simp add: steady_def)
    from run mk b have w': "w' = log (Rmtree ?t)
        (w1\<lparr>files := (\<lambda>k. if inside (resolve env ?t) k then None else files w1 k)\<rparr>)"
      by (simp add: with_temporary_directory_def and_then_def on_exit_def rmtree_def)
    have "prefix (trace w) (trace ?w0)" by (simp add: log_def)
    with 1(1) have "prefix (trace w) (trace w1)" by (auto intro: prefix_order.trans)
    then have "prefix (trace w) (trace w')"
      unfolding w' by (simp add: log_def prefix_prefix)
    moreover have "files w' k = Some Dir"
      unfolding w' using ni 1(2) by (simp add: log_def)
    ultimately show ?thesis by simp
  qed
qed

text \<open>
  C10. Take a call of \<open>merge_local_with_remote\<close> whose two paths expand, whose local clip
  exists, whose toolchain guard passes and whose \<open>mkdir\<close> of the output's parent directory
  succeeds. The output
  path is resolved (\<open>expanduser\<close>, then \<open>resolve\<close>) and its parent is made right after
  the guard: these two are the first effects of the call, before the temporary directory
  and before anything is done about the remote reference. However the call ends, also
  with an exception of a later stage, the parent directory is still there when it
  returns. When the call succeeds, the path it returns is the resolved output path,
  which need not be the text the caller passed.
\<close>

theorem output_parent_created_early:
  assumes ex: "fst (path_exists env (resolve env (expanduser env local_path)) w) = Inr True"
      and guard: "ensure_ffmpeg_available env w = (Inr (), w1)"
      and mk: "mkdir_parents env (parent (resolve env (expanduser env output_path))) w1
                 = (Inr (), w2)"
      and known: "\<not> unknown_home env local_path" "\<not> unknown_home env output_path"
  shows "(\<exists>es. trace (snd (merge_local_with_remote env local_path remote_url output_path w))
                 = trace w @ [Subprocess [''ffmpeg'', ''-version''],
                              Mkdir (parent (resolve env (expanduser env output_path)))] @ es)
     \<and> files (snd (merge_local_with_remote env local_path remote_url output_path w))
           (resolve env (parent (resolve env (expanduser env output_path)))) = Some Dir
     \<and> (\<forall>p. fst (merge_local_with_remote env local_path remote_url output_path w) = Inr p
            \<longrightarrow> p = resolve env (expanduser env output_path))"
proof -
  let ?lp = "resolve env (expanduser env local_path)"
  let ?op = "resolve env (expanduser env output_path)"
  let ?body = "merge_in_tmpdir env ?lp remote_url ?op"
  let ?m = "merge_local_with_remote env local_path remote_url output_path w"
  from ex have e: "path_exists env ?lp w = (Inr True, w)"
    by (rule path_exists_fst)
  obtain x w' where wt: "with_temporary_directory env ?body w2 = (x, w')"
    by (cases "with_temporary_directory env ?body w2") auto
  have m: "?m = (case x of Inl e \<Rightarrow> (Inl e, w') | Inr u \<Rightarrow> (Inr ?op, w'))"
    unfolding merge_local_with_remote_def Let_def
    by (simp add: and_then_def expand_user_known [OF known(1)] expand_user_known [OF known(2)]
        e guard mk wt succeed_def split: sum.splits)
  then have sm: "snd ?m = w'" and fm: "\<forall>p. fst ?m = Inr p \<longrightarrow> p = ?op"
    by (auto split: sum.splits)
  from with_temporary_directory_steady
         [of "resolve env (parent ?op)" ?body w2 env x w', OF steady_merge_in_tmpdir
            mkdir_parents_done(1) [OF mk] mkdir_parents_done(2) [OF mk] wt]
  have p: "prefix (trace w2) (trace w')" and d: "files w' (resolve env (parent ?op)) = Some Dir"
    by simp_all
  from p obtain es where "trace w' = trace w2 @ es" by (auto simp add: prefix_def)
  with ensure_ffmpeg_available_trace [OF guard] mkdir_parents_trace [OF mk]
  have "trace w' = trace w @ [Subprocess [''ffmpeg'', ''-version''], Mkdir (parent ?op)] @ es"
    by simp
  with sm d fm show ?thesis by auto
qed

lemma studio_concat:
  "fst (concat_with_reencoding studio l r p b w) = Inr ()"
  by (simp add: concat_with_reencoding_def concat_args_def and_then_def subprocess_run_def
      succeed_def studio_def studio_popen_def)

lemma studio_body_succeeds:
  "fst (merge_in_tmpdir studio ''/work/intro.mp4'' ''outro.mp4'' ''/work/out/merged.mp4''
          ''/tmp/tmpk3'' studio_tmp_made) = Inr ()"
  unfolding merge_in_tmpdir_def Let_def joinpath_tmpk3
  by (simp add: and_then_by_parts studio_prepare_outro studio_probe_intro
      studio_probe_remote studio_scale studio_has_audio studio_concat succeed_def)

lemma offline_body_fails:
  "fst (merge_in_tmpdir offline ''/work/intro.mp4'' ''https://example.org/a.mp4''
          ''/work/out/merged.mp4'' ''/tmp/tmpk3'' studio_tmp_made)
     = Inl (CalledProcessError
              [''ffmpeg'', ''-y'', ''-i'', ''https://example.org/a.mp4'', ''-c'', ''copy'',
               ''/tmp/tmpk3/remote.mp4''] 1)"
  unfolding merge_in_tmpdir_def Let_def joinpath_tmpk3
  by (simp add: and_then_by_parts [of "prepare_remote_clip offline u d" for u d] offline_prepare)

theorem output_parent_created_early_witness:
  "files studio_disk ''/work/out'' = None
   \<and> fst (merge_local_with_remote offline ''intro.mp4'' ''https://example.org/a.mp4''
            ''out/merged.mp4'' studio_disk)
       = Inl (CalledProcessError
                [''ffmpeg'', ''-y'', ''-i'', ''https://example.org/a.mp4'', ''-c'', ''copy'',
                 ''/tmp/tmpk3/remote.mp4''] 1)
   \<and> files (snd (merge_local_with_remote offline ''intro.mp4'' ''https://example.org/a.mp4''
                   ''out/merged.mp4'' studio_disk)) ''/work/out'' = Some Dir
   \<and> fst (merge_local_with_remote studio ''intro.mp4'' ''outro.mp4'' ''out/merged.mp4''
            studio_disk) = Inr ''/work/out/merged.mp4''
   \<and> ''/work/out/merged.mp4'' \<noteq> ''out/merged.mp4''"
proof -
  have 0: "files studio_disk ''/work/out'' = None"
    by (simp add: studio_disk_def)
  have ok: "\<not> unknown_home offline ''intro.mp4''" "\<not> unknown_home offline ''out/merged.mp4''"
    unfolding offline_same by (rule studio_known)+
  have o1: "fst (path_exists offline (resolve offline (expanduser offline ''intro.mp4''))
                  studio_disk) = Inr True"
    by (simp only: offline_same studio_paths studio_intro_exists)
  have o3: "mkdir_parents offline
              (parent (resolve offline (expanduser offline ''out/merged.mp4'')))
              (log (Subprocess [''ffmpeg'', ''-version'']) studio_disk)
            = (Inr (), studio_after_mkdir)"
    by (simp only: offline_same studio_paths studio_mkdir)
  have o4: "mkdtemp offline studio_after_mkdir = (Inr ''/tmp/tmpk3'', studio_tmp_made)"
    unfolding studio_tmp_made_def offline_same by (rule studio_mkdtemp)
  have a: "fst (merge_local_with_remote offline ''intro.mp4'' ''https://example.org/a.mp4''
            ''out/merged.mp4'' studio_disk)
       = Inl (CalledProcessError
                [''ffmpeg'', ''-y'', ''-i'', ''https://example.org/a.mp4'', ''-c'', ''copy'',
                 ''/tmp/tmpk3/remote.mp4''] 1)"
    unfolding merge_result_from_body [OF o1 offline_guard o3 o4 ok]
    by (simp add: offline_same studio_paths offline_body_fails)
  from output_parent_created_early [OF o1 offline_guard o3 ok, of "''https://example.org/a.mp4''"]
  have b: "files (snd (merge_local_with_remote offline ''intro.mp4'' ''https://example.org/a.mp4''
                   ''out/merged.mp4'' studio_disk)) ''/work/out'' = Some Dir"
    by (simp add: offline_same studio_paths studio_def studio_resolve_def)
  have s1: "fst (path_exists studio (resolve studio (expanduser studio ''intro.mp4'')) studio_disk)
             = Inr True"
    by (simp only: studio_paths studio_intro_exists)
  have s3: "mkdir_parents studio (parent (resolve studio (expanduser studio ''out/merged.mp4'')))
             (log (Subprocess [''ffmpeg'', ''-version'']) studio_disk)
             = (Inr (), studio_after_mkdir)"
    by (simp only: studio_paths studio_mkdir)
  have s4: "mkdtemp studio studio_after_mkdir = (Inr ''/tmp/tmpk3'', studio_tmp_made)"
    unfolding studio_tmp_made_def by (rule studio_mkdtemp)
  have c: "fst (merge_local_with_remote studio ''intro.mp4'' ''outro.mp4'' ''out/merged.mp4''
            studio_disk) = Inr ''/work/out/merged.mp4''"
    unfolding merge_result_from_body [OF s1 studio_guard s3 s4 studio_known(1) studio_known(2)]
    by (simp add: studio_paths studio_body_succeeds)
  from 0 a b c show ?thesis by simp
qed

end
